theory Spec2Isabelle
  imports Complex_Main "HOL-Library.Monad_Syntax"
begin

section \<open>JSON values\<close>

text \<open>
  The value of a JSONB column, of a \<^verbatim>\<open>Record<string, unknown>\<close> member and of a wire
  payload. A number is a finite rational: JSON has neither NaN nor an infinity.
\<close>

datatype json =
    JNull
  | JBool bool
  | JNum rat
  | JString string
  | JArr "json list"
  | JObj "(string \<times> json) list"

text \<open>
  The member of an object under a key (none when the key is absent, or the value is no
  object), and the keys an object carries.
\<close>

fun member :: "string \<Rightarrow> json \<Rightarrow> json option" where
  "member k (JObj kvs) = map_of kvs k"
| "member k _ = None"

fun keys :: "json \<Rightarrow> string list" where
  "keys (JObj kvs) = map fst kvs"
| "keys _ = []"

section \<open>The types of the source as values\<close>

text \<open>
  The type expressions that the shared types use: \<^verbatim>\<open>string\<close>, \<^verbatim>\<open>number\<close>, \<^verbatim>\<open>null\<close>,
  \<^verbatim>\<open>unknown\<close>, a string literal type, an array type \<^verbatim>\<open>T[]\<close>, a union \<^verbatim>\<open>A | B\<close>,
  \<^verbatim>\<open>Record<string, T>\<close>, and an object type (an interface): the list of its members,
  each with its type.
\<close>

datatype ts_type =
    TString
  | TNumber
  | TNull
  | TUnknown
  | TLiteral string
  | TArray ts_type
  | TUnion ts_type ts_type
  | TRecord ts_type
  | TObject "(string \<times> ts_type) list"

text \<open>
  Typing is structural. A value has an object type when it is an object that has every
  member the type declares, with a value of the member's type. The type is open: the
  object may carry members that the type does not declare.
\<close>

fun has_type :: "ts_type \<Rightarrow> json \<Rightarrow> bool" where
  "has_type TString j = (case j of JString _ \<Rightarrow> True | _ \<Rightarrow> False)"
| "has_type TNumber j = (case j of JNum _ \<Rightarrow> True | _ \<Rightarrow> False)"
| "has_type TNull j = (case j of JNull \<Rightarrow> True | _ \<Rightarrow> False)"
| "has_type TUnknown j = True"
| "has_type (TLiteral s) j = (case j of JString s' \<Rightarrow> s' = s | _ \<Rightarrow> False)"
| "has_type (TArray t) j = (case j of JArr xs \<Rightarrow> list_all (has_type t) xs | _ \<Rightarrow> False)"
| "has_type (TUnion a b) j = (has_type a j \<or> has_type b j)"
| "has_type (TRecord t) j =
     (case j of JObj kvs \<Rightarrow> list_all (\<lambda>kv. has_type t (snd kv)) kvs | _ \<Rightarrow> False)"
| "has_type (TObject ms) j =
     (case j of
        JObj kvs \<Rightarrow>
          list_all (\<lambda>m. case map_of kvs (fst m) of
                           None \<Rightarrow> False
                         | Some v \<Rightarrow> has_type (snd m) v) ms
      | _ \<Rightarrow> False)"

text \<open>
  \<^verbatim>\<open>interface X extends B { ... }\<close> has the members of B and those of its own body; a
  member that the body declares again takes the type the body gives it and stays one
  member.
\<close>

definition extends :: "(string \<times> ts_type) list \<Rightarrow> (string \<times> ts_type) list \<Rightarrow> (string \<times> ts_type) list" where
  "extends base body =
     map (\<lambda>m. (fst m, case map_of body (fst m) of None \<Rightarrow> snd m | Some t \<Rightarrow> t)) base @
     filter (\<lambda>m. fst m \<notin> set (map fst base)) body"

section \<open>Shared types: research.ts\<close>

text \<open>
  \<^verbatim>\<open>export type TaskStatus = "pending" | "running" | "completed" | "failed";\<close>
  A union of string literal types: a value of the type is one of the four strings.
  The datatype names the members, \<open>TaskStatus_literal\<close> gives the string each one is.
\<close>

datatype TaskStatus = pending | running | completed | failed

fun TaskStatus_literal :: "TaskStatus \<Rightarrow> string" where
  "TaskStatus_literal pending = ''pending''"
| "TaskStatus_literal running = ''running''"
| "TaskStatus_literal completed = ''completed''"
| "TaskStatus_literal failed = ''failed''"

text \<open>A string inhabits the TypeScript type when it is the literal of a member.\<close>

definition is_TaskStatus :: "string \<Rightarrow> bool" where
  "is_TaskStatus s = (s \<in> set (map TaskStatus_literal [pending, running, completed, failed]))"

text \<open>
  The interfaces. A member of type \<^verbatim>\<open>T | null\<close> is an option, \<open>None\<close> being null.
  \<^verbatim>\<open>number\<close> members that count (a step number, degrees of separation) are integers;
  \<open>confidence_score\<close> is a rational.
\<close>

record Citation =
  title :: string
  url :: string
  snippet :: string

record Inference =
  claim :: string
  supporting_citations :: "string list"
  degrees_of_separation :: int
  reasoning :: string

record ReasoningStep =
  step_number :: int
  action :: string
  input' :: string
  output' :: string
  rationale :: string

record ResearchResult =
  summary :: string
  key_findings :: "string list"
  inferences :: "Inference list"
  reasoning_trace :: "ReasoningStep list"
  citations :: "Citation list"
  confidence_score :: rat

text \<open>
  The member \<^verbatim>\<open>id\<close> of the source is \<open>id'\<close> here (\<open>id\<close> is the identity of HOL), and
  the members \<^verbatim>\<open>input\<close> and \<open>output\<close> of ReasoningStep are \<open>input'\<close> and \<open>output'\<close>
  (both words are reserved).
\<close>

record ResearchTask =
  id' :: string
  query :: string
  status :: TaskStatus
  result :: "ResearchResult option"
  error_message :: "string option"
  created_at :: string
  started_at :: "string option"
  completed_at :: "string option"

text \<open>The interfaces of research.ts as types, member by member.\<close>

definition Citation_members :: "(string \<times> ts_type) list" where
  "Citation_members = [(''title'', TString), (''url'', TString), (''snippet'', TString)]"

definition Inference_members :: "(string \<times> ts_type) list" where
  "Inference_members =
     [(''claim'', TString), (''supporting_citations'', TArray TString),
      (''degrees_of_separation'', TNumber), (''reasoning'', TString)]"

definition ReasoningStep_members :: "(string \<times> ts_type) list" where
  "ReasoningStep_members =
     [(''step_number'', TNumber), (''action'', TString), (''input'', TString),
      (''output'', TString), (''rationale'', TString)]"

definition ResearchResult_members :: "(string \<times> ts_type) list" where
  "ResearchResult_members =
     [(''summary'', TString), (''key_findings'', TArray TString),
      (''inferences'', TArray (TObject Inference_members)),
      (''reasoning_trace'', TArray (TObject ReasoningStep_members)),
      (''citations'', TArray (TObject Citation_members)),
      (''confidence_score'', TNumber)]"

section \<open>Shared types: events.ts\<close>

datatype EventType =
    task_created
  | task_started
  | step_completed
  | task_completed
  | task_failed

fun EventType_literal :: "EventType \<Rightarrow> string" where
  "EventType_literal task_created = ''task_created''"
| "EventType_literal task_started = ''task_started''"
| "EventType_literal step_completed = ''step_completed''"
| "EventType_literal task_completed = ''task_completed''"
| "EventType_literal task_failed = ''task_failed''"

text \<open>
  \<^verbatim>\<open>export type EventType = "task_created" | "task_started" | "step_completed"
    | "task_completed" | "task_failed";\<close> as a type.
\<close>

definition EventType_type :: ts_type where
  "EventType_type =
     TUnion (TLiteral ''task_created'') (TUnion (TLiteral ''task_started'')
       (TUnion (TLiteral ''step_completed'') (TUnion (TLiteral ''task_completed'')
         (TLiteral ''task_failed''))))"

text \<open>The members of each interface of events.ts.\<close>

definition BaseEvent_members :: "(string \<times> ts_type) list" where
  "BaseEvent_members =
     [(''event_type'', EventType_type), (''task_id'', TString), (''timestamp'', TString)]"

definition TaskCreatedEvent_members :: "(string \<times> ts_type) list" where
  "TaskCreatedEvent_members =
     extends BaseEvent_members
       [(''event_type'', TLiteral ''task_created''), (''query'', TString)]"

definition TaskStartedEvent_members :: "(string \<times> ts_type) list" where
  "TaskStartedEvent_members =
     extends BaseEvent_members [(''event_type'', TLiteral ''task_started'')]"

definition StepCompletedEvent_members :: "(string \<times> ts_type) list" where
  "StepCompletedEvent_members =
     extends BaseEvent_members
       [(''event_type'', TLiteral ''step_completed''),
        (''step'', TObject ReasoningStep_members)]"

definition TaskCompletedEvent_members :: "(string \<times> ts_type) list" where
  "TaskCompletedEvent_members =
     extends BaseEvent_members
       [(''event_type'', TLiteral ''task_completed''),
        (''result'', TObject ResearchResult_members)]"

definition TaskFailedEvent_members :: "(string \<times> ts_type) list" where
  "TaskFailedEvent_members =
     extends BaseEvent_members
       [(''event_type'', TLiteral ''task_failed''), (''error'', TString),
        (''error_details'', TUnion (TRecord TUnknown) TNull)]"

text \<open>The members of the interface whose \<open>event_type\<close> is the given literal.\<close>

fun declared_members :: "EventType \<Rightarrow> (string \<times> ts_type) list" where
  "declared_members task_created = TaskCreatedEvent_members"
| "declared_members task_started = TaskStartedEvent_members"
| "declared_members step_completed = StepCompletedEvent_members"
| "declared_members task_completed = TaskCompletedEvent_members"
| "declared_members task_failed = TaskFailedEvent_members"

text \<open>
  \<^verbatim>\<open>export type StreamEvent = TaskCreatedEvent | TaskStartedEvent | StepCompletedEvent
    | TaskCompletedEvent | TaskFailedEvent;\<close> as a type: a value is a StreamEvent when
  it has the type of one of the five interfaces.
\<close>

definition StreamEvent_type :: ts_type where
  "StreamEvent_type =
     TUnion (TObject TaskCreatedEvent_members) (TUnion (TObject TaskStartedEvent_members)
       (TUnion (TObject StepCompletedEvent_members) (TUnion (TObject TaskCompletedEvent_members)
         (TObject TaskFailedEvent_members))))"

text \<open>
  The names of the members a variant adds to those of the base: its payload.
\<close>

definition payload_members :: "EventType \<Rightarrow> string list" where
  "payload_members t =
     filter (\<lambda>k. k \<notin> set (map fst BaseEvent_members)) (map fst (declared_members t))"

text \<open>
  The five shapes that the union declares, as a datatype: one constructor for each
  interface, its arguments being the members the interface declares besides
  \<open>event_type\<close>, which the constructor itself is (task\_id and timestamp first, then the
  members of its own body).
\<close>

datatype StreamEvent =
    TaskCreatedEvent (task_id: string) (timestamp: string) (ev_query: string)
  | TaskStartedEvent (task_id: string) (timestamp: string)
  | StepCompletedEvent (task_id: string) (timestamp: string) (ev_step: ReasoningStep)
  | TaskCompletedEvent (task_id: string) (timestamp: string) (ev_result: ResearchResult)
  | TaskFailedEvent (task_id: string) (timestamp: string) (ev_error: string)
      (ev_error_details: "(string \<times> json) list option")

fun event_type :: "StreamEvent \<Rightarrow> EventType" where
  "event_type (TaskCreatedEvent _ _ _) = task_created"
| "event_type (TaskStartedEvent _ _) = task_started"
| "event_type (StepCompletedEvent _ _ _) = step_completed"
| "event_type (TaskCompletedEvent _ _ _) = task_completed"
| "event_type (TaskFailedEvent _ _ _ _) = task_failed"

section \<open>Shared types: api.ts\<close>

text \<open>
  An optional member (\<^verbatim>\<open>m?: T\<close>) is an option, \<open>None\<close> when the member is absent;
  \<^verbatim>\<open>webhook_url?: string | null\<close> can be absent, null or a string.
\<close>

record CreateResearchRequest =
  query :: string
  webhook_url :: "string option option"
  max_iterations :: "int option"

record CreateResearchResponse =
  task_id :: string
  status :: TaskStatus
  created_at :: string

datatype StreamEventType =
    task_created
  | task_started
  | step_completed
  | task_completed
  | task_failed
  | heartbeat

fun StreamEventType_literal :: "StreamEventType \<Rightarrow> string" where
  "StreamEventType_literal StreamEventType.task_created = ''task_created''"
| "StreamEventType_literal StreamEventType.task_started = ''task_started''"
| "StreamEventType_literal StreamEventType.step_completed = ''step_completed''"
| "StreamEventType_literal StreamEventType.task_completed = ''task_completed''"
| "StreamEventType_literal StreamEventType.task_failed = ''task_failed''"
| "StreamEventType_literal heartbeat = ''heartbeat''"

record ResearchStreamChunk =
  event :: StreamEventType
  data :: "(string \<times> json) list"

section \<open>Validation rules of the backend models\<close>

text \<open>
  The README of the shared-types package lists the validation its Pydantic models
  perform (\<open>packages/shared/python/shared_types\<close>); the TypeScript types above are
  structural only. A value that breaks a rule raises a validation error that names the
  member.
\<close>

datatype ValidationError = ValidationError string

text \<open>
  Modelled from the spec: the validation of the Pydantic model CreateResearchRequest
  (\<open>shared_types/api.py\<close>, not among the sources), from the rules
  \<^verbatim>\<open>CreateResearchRequest.query: 1-2000 characters\<close> and
  \<^verbatim>\<open>CreateResearchRequest.max_iterations: 1-20\<close>. The query is the list of its
  characters, so its length is their number.
\<close>

definition validate_CreateResearchRequest ::
  "CreateResearchRequest \<Rightarrow> ValidationError + CreateResearchRequest" where
  "validate_CreateResearchRequest r =
     (if length (CreateResearchRequest.query r) < 1 \<or>
         length (CreateResearchRequest.query r) > 2000
        then Inl (ValidationError ''query'')
      else (case max_iterations r of
        None \<Rightarrow> Inr r
      | Some n \<Rightarrow>
          if n < 1 \<or> n > 20 then Inl (ValidationError ''max_iterations'') else Inr r))"

text \<open>
  Modelled from the spec: the validation of the Pydantic model Inference
  (\<open>shared_types/research.py\<close>, not among the sources), from the rule
  \<^verbatim>\<open>Inference.degrees_of_separation: >= 1\<close>.
\<close>

definition validate_Inference :: "Inference \<Rightarrow> ValidationError + Inference" where
  "validate_Inference i =
     (if degrees_of_separation i \<ge> 1 then Inr i
      else Inl (ValidationError ''degrees_of_separation''))"

text \<open>
  Modelled from the spec: the validation of the Pydantic model ResearchResult
  (\<open>shared_types/research.py\<close>, not among the sources), from the rule
  \<^verbatim>\<open>ResearchResult.confidence_score: 0.0-1.0\<close>; the inferences it holds are validated
  as Inference values are.
\<close>

definition validate_ResearchResult :: "ResearchResult \<Rightarrow> ValidationError + ResearchResult" where
  "validate_ResearchResult r =
     (if \<not> list_all (\<lambda>i. validate_Inference i = Inr i) (inferences r)
        then Inl (ValidationError ''inferences'')
      else if 0 \<le> confidence_score r \<and> confidence_score r \<le> 1 then Inr r
      else Inl (ValidationError ''confidence_score''))"

section \<open>The wire shape of a task\<close>


definition Citation_to_json :: "Citation \<Rightarrow> json" where
  "Citation_to_json c =
     JObj [(''title'', JString (title c)), (''url'', JString (url c)),
           (''snippet'', JString (snippet c))]"

definition Inference_to_json :: "Inference \<Rightarrow> json" where
  "Inference_to_json i =
     JObj [(''claim'', JString (claim i)),
           (''supporting_citations'', JArr (map JString (supporting_citations i))),
           (''degrees_of_separation'', JNum (of_int (degrees_of_separation i))),
           (''reasoning'', JString (reasoning i))]"

definition ReasoningStep_to_json :: "ReasoningStep \<Rightarrow> json" where
  "ReasoningStep_to_json s =
     JObj [(''step_number'', JNum (of_int (step_number s))),
           (''action'', JString (action s)),
           (''input'', JString (input' s)),
           (''output'', JString (output' s)),
           (''rationale'', JString (rationale s))]"

definition ResearchResult_to_json :: "ResearchResult \<Rightarrow> json" where
  "ResearchResult_to_json r =
     JObj [(''summary'', JString (summary r)),
           (''key_findings'', JArr (map JString (key_findings r))),
           (''inferences'', JArr (map Inference_to_json (inferences r))),
           (''reasoning_trace'', JArr (map ReasoningStep_to_json (reasoning_trace r))),
           (''citations'', JArr (map Citation_to_json (citations r))),
           (''confidence_score'', JNum (confidence_score r))]"














section \<open>SQL values and constraints\<close>

text \<open>
  A nullable column holds \<open>None\<close> for NULL. A boolean SQL expression is three-valued:
  \<open>None\<close> is unknown. A CHECK constraint rejects a row only when its expression is
  false; true and unknown both pass.
\<close>

type_synonym sql_bool = "bool option"

definition sql_and :: "sql_bool \<Rightarrow> sql_bool \<Rightarrow> sql_bool" where
  "sql_and a b =
     (if a = Some False \<or> b = Some False then Some False
      else if a = None \<or> b = None then None
      else Some True)"

definition sql_or :: "sql_bool \<Rightarrow> sql_bool \<Rightarrow> sql_bool" where
  "sql_or a b =
     (if a = Some True \<or> b = Some True then Some True
      else if a = None \<or> b = None then None
      else Some False)"

definition sql_is_null :: "'a option \<Rightarrow> sql_bool" where
  "sql_is_null v = Some (v = None)"

text \<open>\<open>v IN (c1, ..., cn)\<close> with non-null constants: unknown on NULL.\<close>

definition sql_in :: "'a option \<Rightarrow> 'a list \<Rightarrow> sql_bool" where
  "sql_in v cs = (case v of None \<Rightarrow> None | Some x \<Rightarrow> Some (x \<in> set cs))"

text \<open>\<open>a >= b\<close> and \<open>a <= b\<close> over a given total order: unknown when a side is NULL.\<close>

definition sql_le :: "('a \<Rightarrow> 'a \<Rightarrow> bool) \<Rightarrow> 'a option \<Rightarrow> 'a option \<Rightarrow> sql_bool" where
  "sql_le le a b =
     (case a of None \<Rightarrow> None
      | Some x \<Rightarrow> (case b of None \<Rightarrow> None | Some y \<Rightarrow> Some (le x y)))"

definition sql_ge :: "('a \<Rightarrow> 'a \<Rightarrow> bool) \<Rightarrow> 'a option \<Rightarrow> 'a option \<Rightarrow> sql_bool" where
  "sql_ge le a b = sql_le le b a"

definition check_passes :: "sql_bool \<Rightarrow> bool" where
  "check_passes b = (b \<noteq> Some False)"

text \<open>
  The column type FLOAT (double precision). Finite values are rationals; the type also
  has the two infinities and NaN. PostgreSQL orders them
  \<open>-Infinity < finite < Infinity < NaN\<close>, NaN being equal to itself.
\<close>

datatype float8 = Finite rat | PosInfinity | NegInfinity | NaN

fun float8_le :: "float8 \<Rightarrow> float8 \<Rightarrow> bool" where
  "float8_le _ NaN = True"
| "float8_le NaN _ = False"
| "float8_le _ PosInfinity = True"
| "float8_le PosInfinity _ = False"
| "float8_le NegInfinity _ = True"
| "float8_le _ NegInfinity = False"
| "float8_le (Finite x) (Finite y) = (x \<le> y)"

subsection \<open>001\_initial\_schema.sql: the CHECK constraints\<close>

text \<open>
  \<^verbatim>\<open>CHECK (status IN ('pending', 'running', 'completed', 'failed'))\<close>
\<close>

definition chk_task_status :: "string option \<Rightarrow> bool" where
  "chk_task_status new_status =
     check_passes (sql_in new_status [''pending'', ''running'', ''completed'', ''failed''])"

text \<open>
  \<^verbatim>\<open>CHECK (confidence IS NULL OR (confidence >= 0.0 AND confidence <= 1.0))\<close>
\<close>

definition chk_confidence_range :: "float8 option \<Rightarrow> bool" where
  "chk_confidence_range confidence =
     check_passes
       (sql_or (sql_is_null confidence)
          (sql_and (sql_ge float8_le confidence (Some (Finite 0)))
                   (sql_le float8_le confidence (Some (Finite 1)))))"

text \<open>
  \<^verbatim>\<open>CHECK (degrees_of_separation >= 0)\<close>
\<close>

definition chk_degrees_non_negative :: "int option \<Rightarrow> bool" where
  "chk_degrees_non_negative degrees =
     check_passes (sql_ge (\<le>) degrees (Some 0))"

text \<open>
  \<^verbatim>\<open>CHECK (score IS NULL OR (score >= 0.0 AND score <= 1.0))\<close>
\<close>

definition chk_score_range :: "float8 option \<Rightarrow> bool" where
  "chk_score_range score =
     check_passes
       (sql_or (sql_is_null score)
          (sql_and (sql_ge float8_le score (Some (Finite 0)))
                   (sql_le float8_le score (Some (Finite 1)))))"

subsection \<open>types.sql: the enum type task\_status\<close>

text \<open>
  \<^verbatim>\<open>CREATE TYPE task_status AS ENUM ('pending', 'running', 'completed', 'failed');\<close>
  An enum type is its list of labels; a string converts to the type only when it is
  one of them (the input is rejected otherwise).
\<close>

definition task_status_labels :: "string list" where
  "task_status_labels = [''pending'', ''running'', ''completed'', ''failed'']"

datatype sql_error =
    not_null_violation string
  | check_violation string
  | unique_violation string
  | foreign_key_violation string
  | invalid_text_representation string
  | numeric_value_out_of_range string

definition task_status_in :: "string \<Rightarrow> sql_error + string" where
  "task_status_in s =
     (if s \<in> set task_status_labels then Inr s
      else Inl (invalid_text_representation ''task_status''))"

section \<open>The relational schema: 001\_initial\_schema.sql\<close>

text \<open>
  UUIDs are their text form, timestamps are seconds on the time line, and a JSONB
  column holds a JSON value.
\<close>

type_synonym uuid = string
type_synonym timestamptz = int

type_synonym jsonb = json

text \<open>
  The stored rows. A column declared NOT NULL (or PRIMARY KEY) holds a value; every
  other column holds \<open>None\<close> for NULL.
\<close>

record research_tasks_row =
  rt_id :: uuid
  rt_query :: string
  rt_config :: "jsonb option"
  rt_status :: string
  rt_result :: "jsonb option"
  rt_reasoning_trace :: "jsonb option"
  rt_error :: "string option"
  rt_created_at :: "timestamptz option"
  rt_started_at :: "timestamptz option"
  rt_completed_at :: "timestamptz option"
  rt_metadata :: "jsonb option"

record research_findings_row =
  rf_id :: uuid
  rf_task_id :: uuid
  rf_sub_query :: string
  rf_response :: string
  rf_citations :: "jsonb option"
  rf_confidence :: "float8 option"
  rf_created_at :: "timestamptz option"

record inferences_row =
  inf_id :: uuid
  inf_task_id :: uuid
  inf_claim :: string
  inf_supporting_citations :: "jsonb option"
  inf_degrees_of_separation :: int
  inf_reasoning :: string
  inf_created_at :: "timestamptz option"

record eval_results_row =
  er_id :: uuid
  er_task_id :: uuid
  er_eval_type :: string
  er_score :: "float8 option"
  er_details :: "jsonb option"
  er_created_at :: "timestamptz option"

record database =
  research_tasks_table :: "research_tasks_row list"
  research_findings_table :: "research_findings_row list"
  inferences_table :: "inferences_row list"
  eval_results_table :: "eval_results_row list"

definition empty_database :: database where
  "empty_database =
     \<lparr>research_tasks_table = [], research_findings_table = [],
      inferences_table = [], eval_results_table = []\<rparr>"

text \<open>
  What an INSERT gives for one column: nothing (the column is left out and takes its
  DEFAULT, which is NULL when the column declares none), an explicit NULL, or a value.
\<close>

datatype 'a column_value = SqlDefault | SqlNull | SqlValue 'a

fun column :: "'a option \<Rightarrow> 'a column_value \<Rightarrow> 'a option" where
  "column dflt SqlDefault = dflt"
| "column dflt SqlNull = None"
| "column dflt (SqlValue v) = Some v"

record research_tasks_values =
  in_rt_id :: "uuid column_value"
  in_rt_query :: "string column_value"
  in_rt_config :: "jsonb column_value"
  in_rt_status :: "string column_value"
  in_rt_result :: "jsonb column_value"
  in_rt_reasoning_trace :: "jsonb column_value"
  in_rt_error :: "string column_value"
  in_rt_created_at :: "timestamptz column_value"
  in_rt_started_at :: "timestamptz column_value"
  in_rt_completed_at :: "timestamptz column_value"
  in_rt_metadata :: "jsonb column_value"

record research_findings_values =
  in_rf_id :: "uuid column_value"
  in_rf_task_id :: "uuid column_value"
  in_rf_sub_query :: "string column_value"
  in_rf_response :: "string column_value"
  in_rf_citations :: "jsonb column_value"
  in_rf_confidence :: "float8 column_value"
  in_rf_created_at :: "timestamptz column_value"

record inferences_values =
  in_inf_id :: "uuid column_value"
  in_inf_task_id :: "uuid column_value"
  in_inf_claim :: "string column_value"
  in_inf_supporting_citations :: "jsonb column_value"
  in_inf_degrees_of_separation :: "int column_value"
  in_inf_reasoning :: "string column_value"
  in_inf_created_at :: "timestamptz column_value"

record eval_results_values =
  in_er_id :: "uuid column_value"
  in_er_task_id :: "uuid column_value"
  in_er_eval_type :: "string column_value"
  in_er_score :: "float8 column_value"
  in_er_details :: "jsonb column_value"
  in_er_created_at :: "timestamptz column_value"

text \<open>
  \<^verbatim>\<open>INSERT INTO research_tasks\<close>. The two arguments \<open>gen_random_uuid\<close> and \<open>now\<close> are
  what the functions of these names return for this statement. The row is refused, in
  this order, by a NOT NULL column left NULL (id, query, status), by
  \<open>chk_task_status\<close>, and by the primary key when the id is already taken.
\<close>

definition insert_research_tasks ::
  "uuid \<Rightarrow> timestamptz \<Rightarrow> research_tasks_values \<Rightarrow> database \<Rightarrow> sql_error + database" where
  "insert_research_tasks gen_random_uuid now v db =
     (case column (Some gen_random_uuid) (in_rt_id v) of
        None \<Rightarrow> Inl (not_null_violation ''id'')
      | Some i \<Rightarrow>
     (case column None (in_rt_query v) of
        None \<Rightarrow> Inl (not_null_violation ''query'')
      | Some q \<Rightarrow>
     (case column (Some ''pending'') (in_rt_status v) of
        None \<Rightarrow> Inl (not_null_violation ''status'')
      | Some s \<Rightarrow>
        if \<not> chk_task_status (Some s) then Inl (check_violation ''chk_task_status'')
        else if i \<in> set (map rt_id (research_tasks_table db))
          then Inl (unique_violation ''research_tasks_pkey'')
        else Inr (db\<lparr>research_tasks_table := research_tasks_table db @
          [\<lparr>rt_id = i, rt_query = q,
            rt_config = column (Some (JObj [])) (in_rt_config v),
            rt_status = s,
            rt_result = column None (in_rt_result v),
            rt_reasoning_trace = column None (in_rt_reasoning_trace v),
            rt_error = column None (in_rt_error v),
            rt_created_at = column (Some now) (in_rt_created_at v),
            rt_started_at = column None (in_rt_started_at v),
            rt_completed_at = column None (in_rt_completed_at v),
            rt_metadata = column (Some (JObj [])) (in_rt_metadata v)\<rparr>]\<rparr>))))"

text \<open>
  \<^verbatim>\<open>INSERT INTO research_findings\<close>: NOT NULL on id, task\_id, sub\_query and response,
  \<open>chk_confidence_range\<close>, the primary key, and the foreign key
  \<^verbatim>\<open>task_id UUID NOT NULL REFERENCES research_tasks(id)\<close>.
\<close>

definition insert_research_findings ::
  "uuid \<Rightarrow> timestamptz \<Rightarrow> research_findings_values \<Rightarrow> database \<Rightarrow> sql_error + database" where
  "insert_research_findings gen_random_uuid now v db =
     (case column (Some gen_random_uuid) (in_rf_id v) of
        None \<Rightarrow> Inl (not_null_violation ''id'')
      | Some i \<Rightarrow>
     (case column None (in_rf_task_id v) of
        None \<Rightarrow> Inl (not_null_violation ''task_id'')
      | Some t \<Rightarrow>
     (case column None (in_rf_sub_query v) of
        None \<Rightarrow> Inl (not_null_violation ''sub_query'')
      | Some q \<Rightarrow>
     (case column None (in_rf_response v) of
        None \<Rightarrow> Inl (not_null_violation ''response'')
      | Some r \<Rightarrow>
        if \<not> chk_confidence_range (column None (in_rf_confidence v))
          then Inl (check_violation ''chk_confidence_range'')
        else if i \<in> set (map rf_id (research_findings_table db))
          then Inl (unique_violation ''research_findings_pkey'')
        else if t \<notin> set (map rt_id (research_tasks_table db))
          then Inl (foreign_key_violation ''research_findings_task_id_fkey'')
        else Inr (db\<lparr>research_findings_table := research_findings_table db @
          [\<lparr>rf_id = i, rf_task_id = t, rf_sub_query = q, rf_response = r,
            rf_citations = column (Some (JArr [])) (in_rf_citations v),
            rf_confidence = column None (in_rf_confidence v),
            rf_created_at = column (Some now) (in_rf_created_at v)\<rparr>]\<rparr>)))))"

text \<open>
  \<^verbatim>\<open>INSERT INTO inferences\<close>: NOT NULL on id, task\_id, claim, degrees\_of\_separation
  and reasoning, the range of the column type INT (32 bits, signed),
  \<open>chk_degrees_non_negative\<close>, the primary key and the foreign key.
\<close>

definition int4_in_range :: "int \<Rightarrow> bool" where
  "int4_in_range n = (- 2147483648 \<le> n \<and> n \<le> 2147483647)"

definition insert_inferences ::
  "uuid \<Rightarrow> timestamptz \<Rightarrow> inferences_values \<Rightarrow> database \<Rightarrow> sql_error + database" where
  "insert_inferences gen_random_uuid now v db =
     (case column (Some gen_random_uuid) (in_inf_id v) of
        None \<Rightarrow> Inl (not_null_violation ''id'')
      | Some i \<Rightarrow>
     (case column None (in_inf_task_id v) of
        None \<Rightarrow> Inl (not_null_violation ''task_id'')
      | Some t \<Rightarrow>
     (case column None (in_inf_claim v) of
        None \<Rightarrow> Inl (not_null_violation ''claim'')
      | Some c \<Rightarrow>
     (case column None (in_inf_degrees_of_separation v) of
        None \<Rightarrow> Inl (not_null_violation ''degrees_of_separation'')
      | Some d \<Rightarrow>
     (case column None (in_inf_reasoning v) of
        None \<Rightarrow> Inl (not_null_violation ''reasoning'')
      | Some r \<Rightarrow>
        if \<not> int4_in_range d then Inl (numeric_value_out_of_range ''integer'')
        else if \<not> chk_degrees_non_negative (Some d)
          then Inl (check_violation ''chk_degrees_non_negative'')
        else if i \<in> set (map inf_id (inferences_table db))
          then Inl (unique_violation ''inferences_pkey'')
        else if t \<notin> set (map rt_id (research_tasks_table db))
          then Inl (foreign_key_violation ''inferences_task_id_fkey'')
        else Inr (db\<lparr>inferences_table := inferences_table db @
          [\<lparr>inf_id = i, inf_task_id = t, inf_claim = c,
            inf_supporting_citations =
              column (Some (JArr [])) (in_inf_supporting_citations v),
            inf_degrees_of_separation = d, inf_reasoning = r,
            inf_created_at = column (Some now) (in_inf_created_at v)\<rparr>]\<rparr>))))))"

text \<open>
  \<^verbatim>\<open>INSERT INTO eval_results\<close>: NOT NULL on id, task\_id and eval\_type,
  \<open>chk_score_range\<close>, the primary key and the foreign key.
\<close>

definition insert_eval_results ::
  "uuid \<Rightarrow> timestamptz \<Rightarrow> eval_results_values \<Rightarrow> database \<Rightarrow> sql_error + database" where
  "insert_eval_results gen_random_uuid now v db =
     (case column (Some gen_random_uuid) (in_er_id v) of
        None \<Rightarrow> Inl (not_null_violation ''id'')
      | Some i \<Rightarrow>
     (case column None (in_er_task_id v) of
        None \<Rightarrow> Inl (not_null_violation ''task_id'')
      | Some t \<Rightarrow>
     (case column None (in_er_eval_type v) of
        None \<Rightarrow> Inl (not_null_violation ''eval_type'')
      | Some e \<Rightarrow>
        if \<not> chk_score_range (column None (in_er_score v))
          then Inl (check_violation ''chk_score_range'')
        else if i \<in> set (map er_id (eval_results_table db))
          then Inl (unique_violation ''eval_results_pkey'')
        else if t \<notin> set (map rt_id (research_tasks_table db))
          then Inl (foreign_key_violation ''eval_results_task_id_fkey'')
        else Inr (db\<lparr>eval_results_table := eval_results_table db @
          [\<lparr>er_id = i, er_task_id = t, er_eval_type = e,
            er_score = column None (in_er_score v),
            er_details = column None (in_er_details v),
            er_created_at = column (Some now) (in_er_created_at v)\<rparr>]\<rparr>))))"

text \<open>
  \<^verbatim>\<open>DELETE FROM research_tasks WHERE ...\<close>. The three referencing tables declare
  \<^verbatim>\<open>task_id UUID NOT NULL REFERENCES research_tasks(id) ON DELETE CASCADE\<close>: every row
  of theirs whose task\_id is the id of a deleted task is deleted with it.
\<close>

definition delete_from_research_tasks ::
  "(research_tasks_row \<Rightarrow> bool) \<Rightarrow> database \<Rightarrow> database" where
  "delete_from_research_tasks cond db =
     (let deleted = map rt_id (filter cond (research_tasks_table db)) in
      \<lparr>research_tasks_table = filter (\<lambda>r. \<not> cond r) (research_tasks_table db),
       research_findings_table =
         filter (\<lambda>r. rf_task_id r \<notin> set deleted) (research_findings_table db),
       inferences_table =
         filter (\<lambda>r. inf_task_id r \<notin> set deleted) (inferences_table db),
       eval_results_table =
         filter (\<lambda>r. er_task_id r \<notin> set deleted) (eval_results_table db)\<rparr>)"

text \<open>\<^verbatim>\<open>DELETE FROM research_tasks WHERE id = ...\<close>: one task, by its primary key.\<close>

definition delete_research_task :: "uuid \<Rightarrow> database \<Rightarrow> database" where
  "delete_research_task task db = delete_from_research_tasks (\<lambda>r. rt_id r = task) db"

text \<open>
  \<^verbatim>\<open>UPDATE research_tasks SET status = ... WHERE id = ...\<close>. The new rows are checked
  as inserted ones are: the NOT NULL of the column and \<open>chk_task_status\<close>. The schema
  has no trigger and no constraint that reads the old status.
\<close>

definition update_research_tasks_status ::
  "uuid \<Rightarrow> string option \<Rightarrow> database \<Rightarrow> sql_error + database" where
  "update_research_tasks_status task new_status db =
     (if task \<notin> set (map rt_id (research_tasks_table db)) then Inr db
      else (case new_status of
        None \<Rightarrow> Inl (not_null_violation ''status'')
      | Some s \<Rightarrow>
        if \<not> chk_task_status (Some s) then Inl (check_violation ''chk_task_status'')
        else Inr (db\<lparr>research_tasks_table :=
          map (\<lambda>r. if rt_id r = task then r\<lparr>rt_status := s\<rparr> else r)
            (research_tasks_table db)\<rparr>)))"

text \<open>\<^verbatim>\<open>DELETE FROM ... WHERE ...\<close> on a referencing table deletes its rows only.\<close>

definition delete_from_research_findings ::
  "(research_findings_row \<Rightarrow> bool) \<Rightarrow> database \<Rightarrow> database" where
  "delete_from_research_findings cond db =
     db\<lparr>research_findings_table := filter (\<lambda>r. \<not> cond r) (research_findings_table db)\<rparr>"

definition delete_from_inferences ::
  "(inferences_row \<Rightarrow> bool) \<Rightarrow> database \<Rightarrow> database" where
  "delete_from_inferences cond db =
     db\<lparr>inferences_table := filter (\<lambda>r. \<not> cond r) (inferences_table db)\<rparr>"

definition delete_from_eval_results ::
  "(eval_results_row \<Rightarrow> bool) \<Rightarrow> database \<Rightarrow> database" where
  "delete_from_eval_results cond db =
     db\<lparr>eval_results_table := filter (\<lambda>r. \<not> cond r) (eval_results_table db)\<rparr>"

subsection \<open>Scripts\<close>

text \<open>
  A script is a list of statements, run in order on a database; the first statement
  that is refused stops it with its error.
\<close>

datatype statement =
    InsertResearchTasks uuid timestamptz research_tasks_values
  | InsertResearchFindings uuid timestamptz research_findings_values
  | InsertInferences uuid timestamptz inferences_values
  | InsertEvalResults uuid timestamptz eval_results_values
  | DeleteResearchTasks "research_tasks_row \<Rightarrow> bool"
  | DeleteResearchFindings "research_findings_row \<Rightarrow> bool"
  | DeleteInferences "inferences_row \<Rightarrow> bool"
  | DeleteEvalResults "eval_results_row \<Rightarrow> bool"
  | UpdateResearchTasksStatus uuid "string option"

fun execute :: "statement \<Rightarrow> database \<Rightarrow> sql_error + database" where
  "execute (InsertResearchTasks u n v) db = insert_research_tasks u n v db"
| "execute (InsertResearchFindings u n v) db = insert_research_findings u n v db"
| "execute (InsertInferences u n v) db = insert_inferences u n v db"
| "execute (InsertEvalResults u n v) db = insert_eval_results u n v db"
| "execute (DeleteResearchTasks cond) db = Inr (delete_from_research_tasks cond db)"
| "execute (DeleteResearchFindings cond) db = Inr (delete_from_research_findings cond db)"
| "execute (DeleteInferences cond) db = Inr (delete_from_inferences cond db)"
| "execute (DeleteEvalResults cond) db = Inr (delete_from_eval_results cond db)"
| "execute (UpdateResearchTasksStatus task s) db = update_research_tasks_status task s db"

fun run :: "statement list \<Rightarrow> database \<Rightarrow> sql_error + database" where
  "run [] db = Inr db"
| "run (st # sts) db =
     (case execute st db of Inl e \<Rightarrow> Inl e | Inr db' \<Rightarrow> run sts db')"

text \<open>
  What the schema promises of every stored row: the primary keys are unique, the CHECK
  constraints hold, and every task\_id is the id of a stored task.
\<close>

definition constraints_hold :: "database \<Rightarrow> bool" where
  "constraints_hold db =
     (distinct (map rt_id (research_tasks_table db)) \<and>
      list_all (\<lambda>r. chk_task_status (Some (rt_status r))) (research_tasks_table db) \<and>
      distinct (map rf_id (research_findings_table db)) \<and>
      list_all (\<lambda>r. chk_confidence_range (rf_confidence r) \<and>
                    rf_task_id r \<in> set (map rt_id (research_tasks_table db)))
        (research_findings_table db) \<and>
      distinct (map inf_id (inferences_table db)) \<and>
      list_all (\<lambda>r. chk_degrees_non_negative (Some (inf_degrees_of_separation r)) \<and>
                    int4_in_range (inf_degrees_of_separation r) \<and>
                    inf_task_id r \<in> set (map rt_id (research_tasks_table db)))
        (inferences_table db) \<and>
      distinct (map er_id (eval_results_table db)) \<and>
      list_all (\<lambda>r. chk_score_range (er_score r) \<and>
                    er_task_id r \<in> set (map rt_id (research_tasks_table db)))
        (eval_results_table db))"

subsection \<open>The seed data\<close>

text \<open>
  Rows of the seed script (its INSERT statements), as it writes them. The script gives
  its timestamps relative to NOW(), here the argument \<open>now\<close>, in seconds:
  \<^verbatim>\<open>NOW() - INTERVAL '2 hours' + INTERVAL '5 seconds'\<close> is \<open>now - 7200 + 5\<close>. A column
  the statement does not list is \<open>SqlDefault\<close>.
\<close>

text \<open>\<^verbatim>\<open>-- Sample completed research task\<close>\<close>

definition seed_task_1 :: "timestamptz \<Rightarrow> research_tasks_values" where
  "seed_task_1 now =
     \<lparr>in_rt_id = SqlValue ''00000000-0000-0000-0000-000000000001'',
      in_rt_query = SqlValue
        ''What are the latest advances in transformer architectures for language models?'',
      in_rt_config = SqlValue (JObj [(''max_iterations'', JNum 3), (''depth'', JString ''deep''),
        (''sources'', JArr [JString ''perplexity''])]),
      in_rt_status = SqlValue ''completed'',
      in_rt_result = SqlValue (JObj [
        (''summary'', JString
          ''Recent advances include mixture-of-experts, sparse attention, and state-space models...''),
        (''key_findings'', JArr [JString ''MoE models achieve better scaling'',
          JString ''Flash attention reduces memory'',
          JString ''Mamba shows promise for long context''])]),
      in_rt_reasoning_trace = SqlValue (JObj [
        (''steps'', JArr [JObj [(''step'', JNum 1), (''agent'', JString ''planner''),
          (''output'', JString ''Breaking down into sub-queries...'')]]),
        (''total_tokens'', JNum 5000)]),
      in_rt_error = SqlDefault,
      in_rt_created_at = SqlValue (now - 7200),
      in_rt_started_at = SqlValue (now - 7200 + 5),
      in_rt_completed_at = SqlValue (now - 3600),
      in_rt_metadata = SqlValue (JObj [(''seed'', JString ''true'')])\<rparr>"

text \<open>\<^verbatim>\<open>-- Sample pending research task\<close>\<close>

definition seed_task_2 :: "timestamptz \<Rightarrow> research_tasks_values" where
  "seed_task_2 now =
     \<lparr>in_rt_id = SqlValue ''00000000-0000-0000-0000-000000000002'',
      in_rt_query = SqlValue
        ''Compare React Server Components vs traditional SSR approaches'',
      in_rt_config = SqlValue (JObj [(''max_iterations'', JNum 5),
        (''depth'', JString ''shallow'')]),
      in_rt_status = SqlValue ''pending'',
      in_rt_result = SqlDefault,
      in_rt_reasoning_trace = SqlDefault,
      in_rt_error = SqlDefault,
      in_rt_created_at = SqlValue (now - 1800),
      in_rt_started_at = SqlDefault,
      in_rt_completed_at = SqlDefault,
      in_rt_metadata = SqlValue (JObj [(''seed'', JString ''true'')])\<rparr>"

text \<open>\<^verbatim>\<open>-- Sample failed research task\<close>\<close>

definition seed_task_4 :: "timestamptz \<Rightarrow> research_tasks_values" where
  "seed_task_4 now =
     \<lparr>in_rt_id = SqlValue ''00000000-0000-0000-0000-000000000004'',
      in_rt_query = SqlValue ''Analyze proprietary internal database schema'',
      in_rt_config = SqlValue (JObj []),
      in_rt_status = SqlValue ''failed'',
      in_rt_result = SqlDefault,
      in_rt_reasoning_trace = SqlDefault,
      in_rt_error = SqlValue ''Access denied: Cannot access internal resources'',
      in_rt_created_at = SqlValue (now - 86400),
      in_rt_started_at = SqlValue (now - 86400 + 2),
      in_rt_completed_at = SqlValue (now - 86400 + 10),
      in_rt_metadata = SqlValue (JObj [(''seed'', JString ''true'')])\<rparr>"

text \<open>The second of the \<^verbatim>\<open>-- Sample research findings for completed task\<close>.\<close>

definition seed_finding_2 :: research_findings_values where
  "seed_finding_2 =
     \<lparr>in_rf_id = SqlDefault,
      in_rf_task_id = SqlValue ''00000000-0000-0000-0000-000000000001'',
      in_rf_sub_query = SqlValue ''How does Flash Attention improve transformer efficiency?'',
      in_rf_response = SqlValue
        ''Flash Attention is an IO-aware exact attention algorithm that reduces memory usage from O(N^2) to O(N)...'',
      in_rf_citations = SqlValue (JArr [JObj [
        (''url'', JString ''https://arxiv.org/abs/2205.14135''),
        (''title'', JString ''FlashAttention''),
        (''snippet'', JString ''We propose FlashAttention...'')]]),
      in_rf_confidence = SqlValue (Finite 0.95),
      in_rf_created_at = SqlDefault\<rparr>"

text \<open>The first of the \<^verbatim>\<open>-- Sample inferences for completed task\<close>.\<close>

definition seed_inference_1 :: inferences_values where
  "seed_inference_1 =
     \<lparr>in_inf_id = SqlDefault,
      in_inf_task_id = SqlValue ''00000000-0000-0000-0000-000000000001'',
      in_inf_claim = SqlValue
        ''MoE architectures are more parameter-efficient than dense models'',
      in_inf_supporting_citations = SqlValue (JArr [JObj [
        (''url'', JString ''https://arxiv.org/abs/2401.04088'')]]),
      in_inf_degrees_of_separation = SqlValue 1,
      in_inf_reasoning = SqlValue
        ''Direct claim from the Mixtral paper abstract stating 8x7B parameters with only 12.9B active'',
      in_inf_created_at = SqlDefault\<rparr>"

text \<open>The first of the \<^verbatim>\<open>-- Sample eval results for completed task\<close>.\<close>

definition seed_eval_1 :: eval_results_values where
  "seed_eval_1 =
     \<lparr>in_er_id = SqlDefault,
      in_er_task_id = SqlValue ''00000000-0000-0000-0000-000000000001'',
      in_er_eval_type = SqlValue ''reasoning_quality'',
      in_er_score = SqlValue (Finite 0.85),
      in_er_details = SqlValue (JObj [
        (''strengths'', JArr [JString ''Clear logical chain'', JString ''Good source usage'']),
        (''weaknesses'', JArr [JString ''Could explore more alternatives''])]),
      in_er_created_at = SqlDefault\<rparr>"

text \<open>
  These rows as one script. The ids that the script leaves to gen\_random\_uuid() are
  given here.
\<close>

definition seed_script :: "timestamptz \<Rightarrow> statement list" where
  "seed_script now =
     [InsertResearchTasks ''a0000000-0000-0000-0000-000000000000'' now (seed_task_1 now),
      InsertResearchTasks ''a0000000-0000-0000-0000-000000000000'' now (seed_task_2 now),
      InsertResearchTasks ''a0000000-0000-0000-0000-000000000000'' now (seed_task_4 now),
      InsertResearchFindings ''f0000000-0000-0000-0000-000000000002'' now seed_finding_2,
      InsertInferences ''10000000-0000-0000-0000-000000000001'' now seed_inference_1,
      InsertEvalResults ''e0000000-0000-0000-0000-000000000001'' now seed_eval_1]"

section \<open>Sample values\<close>

text \<open>A research result with a given confidence score.\<close>

definition sample_result :: "rat \<Rightarrow> ResearchResult" where
  "sample_result c =
     \<lparr>summary = ''Recent advances'', key_findings = [''MoE models achieve better scaling''],
      inferences = [], reasoning_trace = [], citations = [], confidence_score = c\<rparr>"

text \<open>A create-task request with a given query and max\_iterations, and no webhook.\<close>

definition sample_request :: "string \<Rightarrow> int option \<Rightarrow> CreateResearchRequest" where
  "sample_request q m = \<lparr>CreateResearchRequest.query = q, webhook_url = None, max_iterations = m\<rparr>"

text \<open>What a script leaves in research\_tasks: the id and the status of every row.\<close>

definition task_statuses :: "sql_error + database \<Rightarrow> sql_error + (uuid \<times> string) list" where
  "task_statuses res =
     (case res of
        Inl e \<Rightarrow> Inl e
      | Inr db \<Rightarrow> Inr (map (\<lambda>r. (rt_id r, rt_status r)) (research_tasks_table db)))"


text \<open>
  An object with the three members of the base, tagged task\_started, that also carries a
  member \<open>query\<close>.
\<close>

definition started_event_with_query :: json where
  "started_event_with_query =
     JObj [(''event_type'', JString ''task_started''),
           (''task_id'', JString ''00000000-0000-0000-0000-000000000003''),
           (''timestamp'', JString ''2026-01-15T10:01:00Z''),
           (''query'', JString ''What are best practices for implementing RAG systems in production?'')]"

text \<open>A task\_failed event that carries the members of its interface and no other.\<close>

definition failed_event :: json where
  "failed_event =
     JObj [(''event_type'', JString ''task_failed''),
           (''task_id'', JString ''00000000-0000-0000-0000-000000000004''),
           (''timestamp'', JString ''2026-01-14T10:00:10Z''),
           (''error'', JString ''Access denied: Cannot access internal resources''),
           (''error_details'', JNull)]"

text \<open>An object with the members of ResearchResult and a confidence score of 3/2.\<close>

definition result_with_score_above_one :: json where
  "result_with_score_above_one =
     JObj [(''summary'', JString ''Recent advances''),
           (''key_findings'', JArr [JString ''MoE models achieve better scaling'']),
           (''inferences'', JArr []),
           (''reasoning_trace'', JArr []),
           (''citations'', JArr []),
           (''confidence_score'', JNum (3 / 2))]"

section \<open>What the constraints and the types accept\<close>

lemma chk_task_status_iff:
  "chk_task_status (Some s) = (s \<in> {''pending'', ''running'', ''completed'', ''failed''})"
  by (auto simp add: chk_task_status_def check_passes_def sql_in_def)

lemma TaskStatus_UNIV: "(UNIV :: TaskStatus set) = {pending, running, completed, failed}"
  using TaskStatus.exhaust by auto

lemma is_TaskStatus_iff:
  "is_TaskStatus s = (s \<in> {''pending'', ''running'', ''completed'', ''failed''})"
  by (auto simp add: is_TaskStatus_def)

lemma task_status_in_iff:
  "(\<exists>t. task_status_in s = Inr t) = (s \<in> {''pending'', ''running'', ''completed'', ''failed''})"
  by (auto simp add: task_status_in_def task_status_labels_def)

lemma chk_confidence_range_iff:
  "chk_confidence_range c = (c = None \<or> (\<exists>x. c = Some (Finite x) \<and> 0 \<le> x \<and> x \<le> 1))"
proof (cases c)
  case None
  then show ?thesis
    by (simp add: chk_confidence_range_def check_passes_def sql_or_def sql_is_null_def)
next
  case (Some v)
  then show ?thesis
    by (cases v)
      (auto simp add: chk_confidence_range_def check_passes_def sql_or_def sql_and_def
        sql_is_null_def sql_ge_def sql_le_def)
qed

lemma chk_score_range_iff:
  "chk_score_range c = (c = None \<or> (\<exists>x. c = Some (Finite x) \<and> 0 \<le> x \<and> x \<le> 1))"
proof (cases c)
  case None
  then show ?thesis
    by (simp add: chk_score_range_def check_passes_def sql_or_def sql_is_null_def)
next
  case (Some v)
  then show ?thesis
    by (cases v)
      (auto simp add: chk_score_range_def check_passes_def sql_or_def sql_and_def
        sql_is_null_def sql_ge_def sql_le_def)
qed

lemma chk_degrees_non_negative_iff:
  "chk_degrees_non_negative d = (d = None \<or> (\<exists>n. d = Some n \<and> 0 \<le> n))"
  by (cases d) (auto simp add: chk_degrees_non_negative_def check_passes_def sql_ge_def sql_le_def)

lemma EventType_UNIV:
  "(UNIV :: EventType set) = {EventType.task_created, EventType.task_started,
     EventType.step_completed, EventType.task_completed, EventType.task_failed}"
  using EventType.exhaust by auto

lemma StreamEventType_UNIV:
  "(UNIV :: StreamEventType set) = {StreamEventType.task_created, StreamEventType.task_started,
     StreamEventType.step_completed, StreamEventType.task_completed,
     StreamEventType.task_failed, heartbeat}"
  using StreamEventType.exhaust by auto

lemma range_EventType_literal:
  "range EventType_literal =
     {''task_created'', ''task_started'', ''step_completed'', ''task_completed'', ''task_failed''}"
  unfolding EventType_UNIV by simp

lemma range_StreamEventType_literal:
  "range StreamEventType_literal =
     {''task_created'', ''task_started'', ''step_completed'', ''task_completed'', ''task_failed'',
      ''heartbeat''}"
  unfolding StreamEventType_UNIV by simp

lemma card_StreamEventType: "card (UNIV :: StreamEventType set) = 6"
  unfolding StreamEventType_UNIV by simp

lemma inj_StreamEventType_literal: "inj StreamEventType_literal"
proof (rule injI)
  fix a b assume "StreamEventType_literal a = StreamEventType_literal b"
  then show "a = b" by (cases a; cases b) simp_all
qed

section \<open>Every script keeps the constraints\<close>

lemma insert_research_tasks_Inr:
  assumes "insert_research_tasks u n v db = Inr db'"
  shows "\<exists>row. db' = db\<lparr>research_tasks_table := research_tasks_table db @ [row]\<rparr>
           \<and> rt_id row \<notin> set (map rt_id (research_tasks_table db))
           \<and> chk_task_status (Some (rt_status row))
           \<and> column (Some ''pending'') (in_rt_status v) = Some (rt_status row)"
  using assms unfolding insert_research_tasks_def
  by (auto split: option.splits if_splits)

lemma insert_research_findings_Inr:
  assumes "insert_research_findings u n v db = Inr db'"
  shows "\<exists>row. db' = db\<lparr>research_findings_table := research_findings_table db @ [row]\<rparr>
           \<and> rf_id row \<notin> set (map rf_id (research_findings_table db))
           \<and> chk_confidence_range (rf_confidence row)
           \<and> rf_confidence row = column None (in_rf_confidence v)
           \<and> rf_task_id row \<in> set (map rt_id (research_tasks_table db))"
  using assms unfolding insert_research_findings_def
  by (auto split: option.splits if_splits)

lemma insert_inferences_Inr:
  assumes "insert_inferences u n v db = Inr db'"
  shows "\<exists>row. db' = db\<lparr>inferences_table := inferences_table db @ [row]\<rparr>
           \<and> inf_id row \<notin> set (map inf_id (inferences_table db))
           \<and> chk_degrees_non_negative (Some (inf_degrees_of_separation row))
           \<and> int4_in_range (inf_degrees_of_separation row)
           \<and> column None (in_inf_degrees_of_separation v) = Some (inf_degrees_of_separation row)
           \<and> inf_task_id row \<in> set (map rt_id (research_tasks_table db))"
  using assms unfolding insert_inferences_def
  by (auto split: option.splits if_splits)

lemma insert_eval_results_Inr:
  assumes "insert_eval_results u n v db = Inr db'"
  shows "\<exists>row. db' = db\<lparr>eval_results_table := eval_results_table db @ [row]\<rparr>
           \<and> er_id row \<notin> set (map er_id (eval_results_table db))
           \<and> chk_score_range (er_score row)
           \<and> er_score row = column None (in_er_score v)
           \<and> er_task_id row \<in> set (map rt_id (research_tasks_table db))"
  using assms unfolding insert_eval_results_def
  by (auto split: option.splits if_splits)

lemma update_research_tasks_status_Inr:
  assumes "update_research_tasks_status task s db = Inr db'"
  shows "db' = db \<or> (\<exists>x. s = Some x \<and> chk_task_status (Some x) \<and>
           db' = db\<lparr>research_tasks_table :=
             map (\<lambda>r. if rt_id r = task then r\<lparr>rt_status := x\<rparr> else r)
               (research_tasks_table db)\<rparr>)"
  using assms unfolding update_research_tasks_status_def
  by (auto split: option.splits if_splits)

lemma rt_id_update:
  "rt_id \<circ> (\<lambda>r. if rt_id r = task then r\<lparr>rt_status := x\<rparr> else r) = rt_id"
  by (auto simp add: fun_eq_iff)

lemma rt_id_image_update:
  "rt_id ` (\<lambda>r. if rt_id r = task then r\<lparr>rt_status := x\<rparr> else r) ` S = rt_id ` S"
proof -
  have "rt_id ` (\<lambda>r. if rt_id r = task then r\<lparr>rt_status := x\<rparr> else r) ` S =
        (rt_id \<circ> (\<lambda>r. if rt_id r = task then r\<lparr>rt_status := x\<rparr> else r)) ` S"
    by (rule image_comp)
  then show ?thesis by (simp only: rt_id_update)
qed

lemma constraints_hold_empty: "constraints_hold empty_database"
  by (simp add: constraints_hold_def empty_database_def)

lemma constraints_hold_insert_research_tasks:
  assumes "constraints_hold db" "insert_research_tasks u n v db = Inr db'"
  shows "constraints_hold db'"
proof -
  from insert_research_tasks_Inr[OF assms(2)] obtain row where
    "db' = db\<lparr>research_tasks_table := research_tasks_table db @ [row]\<rparr>"
    "rt_id row \<notin> set (map rt_id (research_tasks_table db))"
    "chk_task_status (Some (rt_status row))" by blast
  with assms(1) show ?thesis
    by (auto simp add: constraints_hold_def list_all_iff)
qed

lemma constraints_hold_insert_research_findings:
  assumes "constraints_hold db" "insert_research_findings u n v db = Inr db'"
  shows "constraints_hold db'"
proof -
  from insert_research_findings_Inr[OF assms(2)] obtain row where
    "db' = db\<lparr>research_findings_table := research_findings_table db @ [row]\<rparr>"
    "rf_id row \<notin> set (map rf_id (research_findings_table db))"
    "chk_confidence_range (rf_confidence row)"
    "rf_task_id row \<in> set (map rt_id (research_tasks_table db))" by blast
  with assms(1) show ?thesis
    by (auto simp add: constraints_hold_def list_all_iff)
qed

lemma constraints_hold_insert_inferences:
  assumes "constraints_hold db" "insert_inferences u n v db = Inr db'"
  shows "constraints_hold db'"
proof -
  from insert_inferences_Inr[OF assms(2)] obtain row where
    "db' = db\<lparr>inferences_table := inferences_table db @ [row]\<rparr>"
    "inf_id row \<notin> set (map inf_id (inferences_table db))"
    "chk_degrees_non_negative (Some (inf_degrees_of_separation row))"
    "int4_in_range (inf_degrees_of_separation row)"
    "inf_task_id row \<in> set (map rt_id (research_tasks_table db))" by blast
  with assms(1) show ?thesis
    by (auto simp add: constraints_hold_def list_all_iff)
qed

lemma constraints_hold_insert_eval_results:
  assumes "constraints_hold db" "insert_eval_results u n v db = Inr db'"
  shows "constraints_hold db'"
proof -
  from insert_eval_results_Inr[OF assms(2)] obtain row where
    "db' = db\<lparr>eval_results_table := eval_results_table db @ [row]\<rparr>"
    "er_id row \<notin> set (map er_id (eval_results_table db))"
    "chk_score_range (er_score row)"
    "er_task_id row \<in> set (map rt_id (research_tasks_table db))" by blast
  with assms(1) show ?thesis
    by (auto simp add: constraints_hold_def list_all_iff)
qed

lemma constraints_hold_update:
  assumes "constraints_hold db" "update_research_tasks_status task s db = Inr db'"
  shows "constraints_hold db'"
proof -
  from update_research_tasks_status_Inr[OF assms(2)] show ?thesis
  proof
    assume "db' = db" with assms(1) show ?thesis by simp
  next
    assume "\<exists>x. s = Some x \<and> chk_task_status (Some x) \<and>
           db' = db\<lparr>research_tasks_table :=
             map (\<lambda>r. if rt_id r = task then r\<lparr>rt_status := x\<rparr> else r)
               (research_tasks_table db)\<rparr>"
    then obtain x where x: "chk_task_status (Some x)" "db' = db\<lparr>research_tasks_table :=
             map (\<lambda>r. if rt_id r = task then r\<lparr>rt_status := x\<rparr> else r)
               (research_tasks_table db)\<rparr>" by blast
    with assms(1) show ?thesis
      by (auto simp add: constraints_hold_def list_all_iff rt_id_update rt_id_image_update)
  qed
qed

lemma survivors_reference_survivors:
  assumes "t \<in> rt_id ` S" "t \<notin> rt_id ` {x \<in> S. cond x}"
  shows "t \<in> rt_id ` {x \<in> S. \<not> cond x}"
  using assms by auto

lemma constraints_hold_delete_tasks:
  assumes "constraints_hold db"
  shows "constraints_hold (delete_from_research_tasks cond db)"
  using assms
  by (auto simp add: constraints_hold_def delete_from_research_tasks_def list_all_iff
      distinct_map_filter intro!: survivors_reference_survivors)

lemma constraints_hold_delete_children:
  assumes "constraints_hold db"
  shows "constraints_hold (delete_from_research_findings c1 db)"
    and "constraints_hold (delete_from_inferences c2 db)"
    and "constraints_hold (delete_from_eval_results c3 db)"
  using assms
  by (auto simp add: constraints_hold_def delete_from_research_findings_def
      delete_from_inferences_def delete_from_eval_results_def list_all_iff distinct_map_filter)

lemma constraints_hold_execute:
  assumes "constraints_hold db" "execute st db = Inr db'"
  shows "constraints_hold db'"
  using assms
  by (cases st)
    (auto intro: constraints_hold_insert_research_tasks constraints_hold_insert_research_findings
      constraints_hold_insert_inferences constraints_hold_insert_eval_results
      constraints_hold_update constraints_hold_delete_tasks constraints_hold_delete_children)

lemma constraints_hold_run:
  "constraints_hold db \<Longrightarrow> run sts db = Inr db' \<Longrightarrow> constraints_hold db'"
proof (induction sts arbitrary: db)
  case Nil
  then show ?case by simp
next
  case (Cons st sts)
  then show ?case
    by (auto split: sum.splits dest: constraints_hold_execute)
qed

section \<open>Running the seed rows\<close>

lemmas seed_defs = seed_script_def seed_task_1_def seed_task_2_def seed_task_4_def
  seed_finding_2_def seed_inference_1_def seed_eval_1_def

lemmas insert_defs = insert_research_tasks_def insert_research_findings_def
  insert_inferences_def insert_eval_results_def

lemmas chk_defs = chk_task_status_def chk_confidence_range_def chk_degrees_non_negative_def
  chk_score_range_def check_passes_def sql_in_def sql_or_def sql_and_def sql_is_null_def
  sql_ge_def sql_le_def int4_in_range_def

lemma run_seed_script:
  "\<exists>db. run (seed_script 0) empty_database = Inr db
     \<and> map rt_status (research_tasks_table db) = [''completed'', ''pending'', ''failed'']
     \<and> map rt_id (research_tasks_table db) =
         [''00000000-0000-0000-0000-000000000001'', ''00000000-0000-0000-0000-000000000002'',
          ''00000000-0000-0000-0000-000000000004'']
     \<and> map (\<lambda>r. (rt_id r, rt_status r)) (research_tasks_table db) =
         [(''00000000-0000-0000-0000-000000000001'', ''completed''),
          (''00000000-0000-0000-0000-000000000002'', ''pending''),
          (''00000000-0000-0000-0000-000000000004'', ''failed'')]
     \<and> map rf_id (research_findings_table db) = [''f0000000-0000-0000-0000-000000000002'']
     \<and> map inf_id (inferences_table db) = [''10000000-0000-0000-0000-000000000001'']
     \<and> map er_id (eval_results_table db) = [''e0000000-0000-0000-0000-000000000001'']
     \<and> map rf_task_id (research_findings_table db) = [''00000000-0000-0000-0000-000000000001'']
     \<and> map inf_task_id (inferences_table db) = [''00000000-0000-0000-0000-000000000001'']
     \<and> map er_task_id (eval_results_table db) = [''00000000-0000-0000-0000-000000000001'']
     \<and> map rf_confidence (research_findings_table db) = [Some (Finite 0.95)]
     \<and> map inf_degrees_of_separation (inferences_table db) = [1]
     \<and> map er_score (eval_results_table db) = [Some (Finite 0.85)]"
  by (simp add: seed_defs insert_defs chk_defs empty_database_def)

lemma run_tasks_status:
  assumes "run sts empty_database = Inr db" "r \<in> set (research_tasks_table db)"
  shows "rt_status r \<in> {''pending'', ''running'', ''completed'', ''failed''}"
proof -
  have "constraints_hold db"
    using constraints_hold_run[OF constraints_hold_empty assms(1)] .
  with assms(2) have "chk_task_status (Some (rt_status r))"
    by (simp add: constraints_hold_def list_all_iff)
  then show ?thesis by (simp only: chk_task_status_iff)
qed

section \<open>The status of a task\<close>

text \<open>
  C6: the status of a task is one of exactly four values, pending, running, completed
  and failed. The type TaskStatus has these four members and no other; a string
  inhabits it, passes the CHECK constraint \<open>chk_task_status\<close> of research\_tasks, and
  converts to the enum type task\_status, exactly when it is one of the four; and
  every task row that any script of statements stores, starting from the empty
  database, has one of the four as its status.
\<close>

theorem status_is_one_of_four:
  "(UNIV :: TaskStatus set) = {pending, running, completed, failed}
   \<and> is_TaskStatus s = (s \<in> {''pending'', ''running'', ''completed'', ''failed''})
   \<and> chk_task_status (Some s) = (s \<in> {''pending'', ''running'', ''completed'', ''failed''})
   \<and> (\<exists>t. task_status_in s = Inr t) = (s \<in> {''pending'', ''running'', ''completed'', ''failed''})
   \<and> (run sts empty_database = Inr db \<longrightarrow>
        (\<forall>r \<in> set (research_tasks_table db).
           rt_status r \<in> {''pending'', ''running'', ''completed'', ''failed''}))"
proof (intro conjI impI ballI)
  show "(UNIV :: TaskStatus set) = {pending, running, completed, failed}"
    by (rule TaskStatus_UNIV)
  show "is_TaskStatus s = (s \<in> {''pending'', ''running'', ''completed'', ''failed''})"
    by (rule is_TaskStatus_iff)
  show "chk_task_status (Some s) = (s \<in> {''pending'', ''running'', ''completed'', ''failed''})"
    by (rule chk_task_status_iff)
  show "(\<exists>t. task_status_in s = Inr t) = (s \<in> {''pending'', ''running'', ''completed'', ''failed''})"
    by (rule task_status_in_iff)
next
  fix r assume "run sts empty_database = Inr db" "r \<in> set (research_tasks_table db)"
  then show "rt_status r \<in> {''pending'', ''running'', ''completed'', ''failed''}"
    by (rule run_tasks_status)
qed

theorem status_is_one_of_four_witness:
  "is_TaskStatus ''running'' \<and> \<not> is_TaskStatus ''cancelled''
   \<and> chk_task_status (Some ''running'') \<and> \<not> chk_task_status (Some ''cancelled'')
   \<and> (\<exists>t. task_status_in ''running'' = Inr t) \<and> \<not> (\<exists>t. task_status_in ''cancelled'' = Inr t)
   \<and> (\<exists>db. run (seed_script 0) empty_database = Inr db
        \<and> map rt_status (research_tasks_table db) = [''completed'', ''pending'', ''failed'']
        \<and> (\<forall>r \<in> set (research_tasks_table db).
           rt_status r \<in> {''pending'', ''running'', ''completed'', ''failed''}))"
proof -
  have a: "is_TaskStatus ''running'' \<and> chk_task_status (Some ''running'')
      \<and> (\<exists>t. task_status_in ''running'' = Inr t)"
    using status_is_one_of_four[of "''running''"] by simp
  have b: "\<not> is_TaskStatus ''cancelled'' \<and> \<not> chk_task_status (Some ''cancelled'')
      \<and> \<not> (\<exists>t. task_status_in ''cancelled'' = Inr t)"
    using status_is_one_of_four[of "''cancelled''"] by simp
  from run_seed_script have c: "\<exists>db. run (seed_script 0) empty_database = Inr db
        \<and> map rt_status (research_tasks_table db) = [''completed'', ''pending'', ''failed'']
        \<and> (\<forall>r \<in> set (research_tasks_table db).
           rt_status r \<in> {''pending'', ''running'', ''completed'', ''failed''})"
  proof (elim exE conjE)
    fix db
    assume db: "run (seed_script 0) empty_database = Inr db"
      "map rt_status (research_tasks_table db) = [''completed'', ''pending'', ''failed'']"
    have "run (seed_script 0) empty_database = Inr db \<longrightarrow>
        (\<forall>r \<in> set (research_tasks_table db).
           rt_status r \<in> {''pending'', ''running'', ''completed'', ''failed''})"
      using status_is_one_of_four[of "''running''" "seed_script 0" db] by (elim conjE)
    with db show ?thesis by (intro exI[of _ db] conjI) (assumption, assumption, erule (1) mp)
  qed
  from a b c show ?thesis by (elim conjE) (intro conjI)
qed

section \<open>The event tag of a stream chunk\<close>

text \<open>
  C9: StreamEventType, the type of the event tag of a ResearchStreamChunk, has exactly
  six values, each with a literal of its own: the five literals of EventType and
  heartbeat besides. So every EventType value is a StreamEventType value; heartbeat is
  not an EventType, no StreamEvent has it as its event\_type, and a chunk can carry it.
\<close>

theorem stream_event_type_six_values:
  "card (UNIV :: StreamEventType set) = 6
   \<and> inj StreamEventType_literal
   \<and> range StreamEventType_literal = range EventType_literal \<union> {''heartbeat''}
   \<and> ''heartbeat'' \<notin> range EventType_literal
   \<and> (\<forall>t. \<exists>s. StreamEventType_literal s = EventType_literal t)
   \<and> (\<forall>e. EventType_literal (event_type e) \<noteq> ''heartbeat'')
   \<and> (\<exists>c::ResearchStreamChunk. StreamEventType_literal (event c) = ''heartbeat'')"
proof -
  have "\<exists>s. StreamEventType_literal s = EventType_literal t" for t
    by (cases t) (auto intro: exI[of _ StreamEventType.task_created]
        exI[of _ StreamEventType.task_started] exI[of _ StreamEventType.step_completed]
        exI[of _ StreamEventType.task_completed] exI[of _ StreamEventType.task_failed])
  moreover have "EventType_literal t \<noteq> ''heartbeat''" for t
    by (cases t) simp_all
  moreover have "\<exists>c::ResearchStreamChunk. StreamEventType_literal (event c) = ''heartbeat''"
  proof
    show "StreamEventType_literal (event \<lparr>event = heartbeat, data = []\<rparr>) = ''heartbeat''"
      by simp
  qed
  ultimately show ?thesis
    using card_StreamEventType inj_StreamEventType_literal
    by (auto simp add: range_StreamEventType_literal range_EventType_literal)
qed

section \<open>Degrees of separation\<close>

lemma run_constraints_hold:
  "run sts empty_database = Inr db \<Longrightarrow> constraints_hold db"
  using constraints_hold_run[OF constraints_hold_empty] .

lemma run_inferences_degrees:
  assumes "run sts empty_database = Inr db" "r \<in> set (inferences_table db)"
  shows "0 \<le> inf_degrees_of_separation r"
proof -
  from run_constraints_hold[OF assms(1)] assms(2)
  have "chk_degrees_non_negative (Some (inf_degrees_of_separation r))"
    by (simp add: constraints_hold_def list_all_iff)
  then show ?thesis by (simp add: chk_degrees_non_negative_iff)
qed

lemma insert_inferences_accepts_zero:
  assumes "t \<in> set (map rt_id (research_tasks_table db))"
    and "u \<notin> set (map inf_id (inferences_table db))"
  shows "\<exists>db'. insert_inferences u n
           \<lparr>in_inf_id = SqlDefault, in_inf_task_id = SqlValue t, in_inf_claim = SqlValue c,
            in_inf_supporting_citations = SqlDefault,
            in_inf_degrees_of_separation = SqlValue 0, in_inf_reasoning = SqlValue r,
            in_inf_created_at = SqlDefault\<rparr> db = Inr db'
          \<and> map inf_degrees_of_separation (inferences_table db') =
              map inf_degrees_of_separation (inferences_table db) @ [0]"
  using assms
  by (simp add: insert_inferences_def chk_degrees_non_negative_def check_passes_def
      sql_ge_def sql_le_def int4_in_range_def)

text \<open>
  C1: the two lower bounds declared for the degrees of separation of an inference
  differ. The CHECK constraint \<open>chk_degrees_non_negative\<close> of the schema accepts 0,
  which the documented validation of the backend (at least 1) rejects: an inference with
  0 degrees of separation is inserted into any database that has its task and not yet
  its id. Every inference row that any script of statements stores, starting from the
  empty database, has at least 0 degrees of separation.
\<close>

theorem degrees_of_separation_bounds_differ:
  "chk_degrees_non_negative (Some 0)
   \<and> (degrees_of_separation i = 0 \<longrightarrow>
        validate_Inference i = Inl (ValidationError ''degrees_of_separation''))
   \<and> (t \<in> set (map rt_id (research_tasks_table db)) \<and>
       u \<notin> set (map inf_id (inferences_table db)) \<longrightarrow>
        (\<exists>db'. insert_inferences u n
           \<lparr>in_inf_id = SqlDefault, in_inf_task_id = SqlValue t, in_inf_claim = SqlValue c,
            in_inf_supporting_citations = SqlDefault,
            in_inf_degrees_of_separation = SqlValue 0, in_inf_reasoning = SqlValue r,
            in_inf_created_at = SqlDefault\<rparr> db = Inr db'
          \<and> map inf_degrees_of_separation (inferences_table db') =
              map inf_degrees_of_separation (inferences_table db) @ [0]))
   \<and> (run sts empty_database = Inr db0 \<longrightarrow>
        (\<forall>row \<in> set (inferences_table db0). 0 \<le> inf_degrees_of_separation row))"
proof (intro conjI impI ballI)
  show "chk_degrees_non_negative (Some 0)"
    by (simp add: chk_degrees_non_negative_iff)
next
  assume "degrees_of_separation i = 0"
  then show "validate_Inference i = Inl (ValidationError ''degrees_of_separation'')"
    by (simp add: validate_Inference_def)
next
  assume "t \<in> set (map rt_id (research_tasks_table db)) \<and>
       u \<notin> set (map inf_id (inferences_table db))"
  then show "\<exists>db'. insert_inferences u n
           \<lparr>in_inf_id = SqlDefault, in_inf_task_id = SqlValue t, in_inf_claim = SqlValue c,
            in_inf_supporting_citations = SqlDefault,
            in_inf_degrees_of_separation = SqlValue 0, in_inf_reasoning = SqlValue r,
            in_inf_created_at = SqlDefault\<rparr> db = Inr db'
          \<and> map inf_degrees_of_separation (inferences_table db') =
              map inf_degrees_of_separation (inferences_table db) @ [0]"
    by (elim conjE) (rule insert_inferences_accepts_zero)
next
  fix row assume "run sts empty_database = Inr db0" "row \<in> set (inferences_table db0)"
  then show "0 \<le> inf_degrees_of_separation row" by (rule run_inferences_degrees)
qed


theorem degrees_of_separation_bounds_differ_witness:
  "chk_degrees_non_negative (Some 0)
   \<and> validate_Inference \<lparr>claim = ''a claim'', supporting_citations = [],
         degrees_of_separation = 0, reasoning = ''direct''\<rparr>
       = Inl (ValidationError ''degrees_of_separation'')
   \<and> (\<exists>db db'. run (seed_script 0) empty_database = Inr db
        \<and> insert_inferences ''10000000-0000-0000-0000-000000000002'' 0
           \<lparr>in_inf_id = SqlDefault,
            in_inf_task_id = SqlValue ''00000000-0000-0000-0000-000000000001'',
            in_inf_claim = SqlValue ''a claim'',
            in_inf_supporting_citations = SqlDefault,
            in_inf_degrees_of_separation = SqlValue 0,
            in_inf_reasoning = SqlValue ''direct'',
            in_inf_created_at = SqlDefault\<rparr> db = Inr db'
        \<and> map inf_degrees_of_separation (inferences_table db') = [1, 0]
        \<and> (\<forall>row \<in> set (inferences_table db). 0 \<le> inf_degrees_of_separation row))"
proof -
  let ?i = "\<lparr>claim = ''a claim'', supporting_citations = [],
         degrees_of_separation = 0, reasoning = ''direct''\<rparr>"
  let ?t = "''00000000-0000-0000-0000-000000000001''"
  let ?u = "''10000000-0000-0000-0000-000000000002''"
  from run_seed_script show ?thesis
  proof (elim exE conjE)
    fix db
    assume db: "run (seed_script 0) empty_database = Inr db"
      "map rt_id (research_tasks_table db) =
         [''00000000-0000-0000-0000-000000000001'', ''00000000-0000-0000-0000-000000000002'',
          ''00000000-0000-0000-0000-000000000004'']"
      "map inf_id (inferences_table db) = [''10000000-0000-0000-0000-000000000001'']"
      "map inf_degrees_of_separation (inferences_table db) = [1]"
    note inst = degrees_of_separation_bounds_differ[of ?i ?t db ?u 0 "''a claim''" "''direct''"
        "seed_script 0" db]
    have pre: "?t \<in> set (map rt_id (research_tasks_table db)) \<and>
       ?u \<notin> set (map inf_id (inferences_table db))"
      by (simp only: db(2,3)) simp
    have a: "chk_degrees_non_negative (Some 0)" by (rule inst[THEN conjunct1])
    have b: "validate_Inference ?i = Inl (ValidationError ''degrees_of_separation'')"
      using inst[THEN conjunct2, THEN conjunct1] by simp
    have "\<exists>db'. insert_inferences ?u 0
           \<lparr>in_inf_id = SqlDefault, in_inf_task_id = SqlValue ?t,
            in_inf_claim = SqlValue ''a claim'',
            in_inf_supporting_citations = SqlDefault,
            in_inf_degrees_of_separation = SqlValue 0,
            in_inf_reasoning = SqlValue ''direct'',
            in_inf_created_at = SqlDefault\<rparr> db = Inr db'
        \<and> map inf_degrees_of_separation (inferences_table db') =
            map inf_degrees_of_separation (inferences_table db) @ [0]"
      by (rule mp[OF inst[THEN conjunct2, THEN conjunct2, THEN conjunct1] pre])
    then obtain db' where db': "insert_inferences ?u 0
           \<lparr>in_inf_id = SqlDefault, in_inf_task_id = SqlValue ?t,
            in_inf_claim = SqlValue ''a claim'',
            in_inf_supporting_citations = SqlDefault,
            in_inf_degrees_of_separation = SqlValue 0,
            in_inf_reasoning = SqlValue ''direct'',
            in_inf_created_at = SqlDefault\<rparr> db = Inr db'"
        "map inf_degrees_of_separation (inferences_table db') =
            map inf_degrees_of_separation (inferences_table db) @ [0]"
      by (elim exE conjE) (rule that)
    have d: "map inf_degrees_of_separation (inferences_table db') = [1, 0]"
      by (simp only: db'(2) db(4)) simp
    have e: "\<forall>row \<in> set (inferences_table db). 0 \<le> inf_degrees_of_separation row"
      by (rule mp[OF inst[THEN conjunct2, THEN conjunct2, THEN conjunct2] db(1)])
    from db(1) db'(1) d e have "\<exists>db db'. run (seed_script 0) empty_database = Inr db
        \<and> insert_inferences ?u 0
           \<lparr>in_inf_id = SqlDefault, in_inf_task_id = SqlValue ?t,
            in_inf_claim = SqlValue ''a claim'',
            in_inf_supporting_citations = SqlDefault,
            in_inf_degrees_of_separation = SqlValue 0,
            in_inf_reasoning = SqlValue ''direct'',
            in_inf_created_at = SqlDefault\<rparr> db = Inr db'
        \<and> map inf_degrees_of_separation (inferences_table db') = [1, 0]
        \<and> (\<forall>row \<in> set (inferences_table db). 0 \<le> inf_degrees_of_separation row)"
      by (intro exI[of _ db] exI[of _ db'] conjI)
    with a b show ?thesis by (intro conjI)
  qed
qed

section \<open>Confidence and score\<close>

lemma run_findings_confidence:
  assumes "run sts empty_database = Inr db" "r \<in> set (research_findings_table db)"
    "rf_confidence r = Some v"
  shows "\<exists>x. v = Finite x \<and> 0 \<le> x \<and> x \<le> 1"
proof -
  from run_constraints_hold[OF assms(1)] assms(2)
  have "chk_confidence_range (rf_confidence r)"
    by (simp add: constraints_hold_def list_all_iff)
  with assms(3) show ?thesis by (simp add: chk_confidence_range_iff)
qed

lemma run_eval_score:
  assumes "run sts empty_database = Inr db" "r \<in> set (eval_results_table db)"
    "er_score r = Some v"
  shows "\<exists>x. v = Finite x \<and> 0 \<le> x \<and> x \<le> 1"
proof -
  from run_constraints_hold[OF assms(1)] assms(2)
  have "chk_score_range (er_score r)"
    by (simp add: constraints_hold_def list_all_iff)
  with assms(3) show ?thesis by (simp add: chk_score_range_iff)
qed

lemma validate_ResearchResult_Inr:
  assumes "validate_ResearchResult r = Inr r'"
  shows "r' = r \<and> 0 \<le> confidence_score r \<and> confidence_score r \<le> 1"
  using assms by (simp add: validate_ResearchResult_def split: if_splits)

text \<open>
  C5, as amended: a ResearchResult that passes the validation of the backend has its
  confidence\_score in the closed interval from 0 to 1 (the type itself declares a
  plain number and has values outside the interval). A confidence that passes
  \<open>chk_confidence_range\<close> and a score that passes \<open>chk_score_range\<close> is a finite number
  in the interval (neither NaN nor an infinity passes), and so is the confidence of
  every finding row and the score of every eval result row that any script of
  statements stores, starting from the empty database, when the row has one.
\<close>

theorem confidence_and_score_in_unit_interval:
  "(validate_ResearchResult res = Inr res' \<longrightarrow>
      res' = res \<and> 0 \<le> confidence_score res \<and> confidence_score res \<le> 1)
   \<and> (chk_confidence_range (Some v) \<longrightarrow> (\<exists>x. v = Finite x \<and> 0 \<le> x \<and> x \<le> 1))
   \<and> (chk_score_range (Some w) \<longrightarrow> (\<exists>x. w = Finite x \<and> 0 \<le> x \<and> x \<le> 1))
   \<and> (run sts empty_database = Inr db \<longrightarrow>
        (\<forall>r \<in> set (research_findings_table db). \<forall>c. rf_confidence r = Some c \<longrightarrow>
           (\<exists>x. c = Finite x \<and> 0 \<le> x \<and> x \<le> 1))
        \<and> (\<forall>r \<in> set (eval_results_table db). \<forall>c. er_score r = Some c \<longrightarrow>
           (\<exists>x. c = Finite x \<and> 0 \<le> x \<and> x \<le> 1)))"
proof (intro conjI impI ballI allI)
  assume "validate_ResearchResult res = Inr res'"
  from validate_ResearchResult_Inr[OF this]
  show "res' = res" "0 \<le> confidence_score res" "confidence_score res \<le> 1"
    by simp_all
next
  assume "chk_confidence_range (Some v)"
  then show "\<exists>x. v = Finite x \<and> 0 \<le> x \<and> x \<le> 1"
    by (simp add: chk_confidence_range_iff)
next
  assume "chk_score_range (Some w)"
  then show "\<exists>x. w = Finite x \<and> 0 \<le> x \<and> x \<le> 1"
    by (simp add: chk_score_range_iff)
next
  fix r c
  assume "run sts empty_database = Inr db" "r \<in> set (research_findings_table db)"
    "rf_confidence r = Some c"
  then show "\<exists>x. c = Finite x \<and> 0 \<le> x \<and> x \<le> 1"
    by (rule run_findings_confidence)
next
  fix r c
  assume "run sts empty_database = Inr db" "r \<in> set (eval_results_table db)"
    "er_score r = Some c"
  then show "\<exists>x. c = Finite x \<and> 0 \<le> x \<and> x \<le> 1"
    by (rule run_eval_score)
qed

theorem confidence_and_score_in_unit_interval_witness:
  "validate_ResearchResult (sample_result 0.9) = Inr (sample_result 0.9)
   \<and> 0 \<le> confidence_score (sample_result 0.9) \<and> confidence_score (sample_result 0.9) \<le> 1
   \<and> chk_confidence_range (Some (Finite 0.95)) \<and> (\<exists>x. Finite 0.95 = Finite x \<and> 0 \<le> x \<and> x \<le> 1)
   \<and> chk_score_range (Some (Finite 0.85)) \<and> (\<exists>x. Finite 0.85 = Finite x \<and> 0 \<le> x \<and> x \<le> 1)
   \<and> (\<exists>db. run (seed_script 0) empty_database = Inr db
        \<and> map rf_confidence (research_findings_table db) = [Some (Finite 0.95)]
        \<and> map er_score (eval_results_table db) = [Some (Finite 0.85)]
        \<and> (\<forall>r \<in> set (research_findings_table db). \<forall>c. rf_confidence r = Some c \<longrightarrow>
           (\<exists>x. c = Finite x \<and> 0 \<le> x \<and> x \<le> 1))
        \<and> (\<forall>r \<in> set (eval_results_table db). \<forall>c. er_score r = Some c \<longrightarrow>
           (\<exists>x. c = Finite x \<and> 0 \<le> x \<and> x \<le> 1)))"
proof -
  have v: "validate_ResearchResult (sample_result 0.9) = Inr (sample_result 0.9)"
    by (simp add: validate_ResearchResult_def sample_result_def)
  have c1: "chk_confidence_range (Some (Finite 0.95))"
    by (simp add: chk_defs)
  have c2: "chk_score_range (Some (Finite 0.85))"
    by (simp add: chk_defs)
  from run_seed_script show ?thesis
  proof (elim exE conjE)
    fix db
    assume db: "run (seed_script 0) empty_database = Inr db"
      "map rf_confidence (research_findings_table db) = [Some (Finite 0.95)]"
      "map er_score (eval_results_table db) = [Some (Finite 0.85)]"
    note inst = confidence_and_score_in_unit_interval[of "sample_result 0.9"
        "sample_result 0.9" "Finite 0.95" "Finite 0.85" "seed_script 0" db]
    have a: "0 \<le> confidence_score (sample_result 0.9) \<and>
        confidence_score (sample_result 0.9) \<le> 1"
      using mp[OF inst[THEN conjunct1] v] by (elim conjE) (intro conjI)
    have b: "\<exists>x. Finite 0.95 = Finite x \<and> 0 \<le> x \<and> x \<le> 1"
      by (rule mp[OF inst[THEN conjunct2, THEN conjunct1] c1])
    have c: "\<exists>x. Finite 0.85 = Finite x \<and> 0 \<le> x \<and> x \<le> 1"
      by (rule mp[OF inst[THEN conjunct2, THEN conjunct2, THEN conjunct1] c2])
    have d: "(\<forall>r \<in> set (research_findings_table db). \<forall>c. rf_confidence r = Some c \<longrightarrow>
           (\<exists>x. c = Finite x \<and> 0 \<le> x \<and> x \<le> 1))
        \<and> (\<forall>r \<in> set (eval_results_table db). \<forall>c. er_score r = Some c \<longrightarrow>
           (\<exists>x. c = Finite x \<and> 0 \<le> x \<and> x \<le> 1))"
      by (rule mp[OF inst[THEN conjunct2, THEN conjunct2, THEN conjunct2] db(1)])
    from db d have "\<exists>db. run (seed_script 0) empty_database = Inr db
        \<and> map rf_confidence (research_findings_table db) = [Some (Finite 0.95)]
        \<and> map er_score (eval_results_table db) = [Some (Finite 0.85)]
        \<and> (\<forall>r \<in> set (research_findings_table db). \<forall>c. rf_confidence r = Some c \<longrightarrow>
           (\<exists>x. c = Finite x \<and> 0 \<le> x \<and> x \<le> 1))
        \<and> (\<forall>r \<in> set (eval_results_table db). \<forall>c. er_score r = Some c \<longrightarrow>
           (\<exists>x. c = Finite x \<and> 0 \<le> x \<and> x \<le> 1))"
      by (intro exI[of _ db] conjI) (assumption | erule conjunct1 | erule conjunct2)+
    with v a b c c1 c2 show ?thesis by (elim conjE) (intro conjI)
  qed
qed

text \<open>
  An object with every member of ResearchResult, each of its declared type, and a
  confidence score of 3/2: the type has it, the validation of the backend refuses it.
\<close>

theorem confidence_score_counterexample:
  "has_type (TObject ResearchResult_members) result_with_score_above_one
   \<and> member ''confidence_score'' result_with_score_above_one = Some (JNum (3 / 2))
   \<and> ResearchResult_to_json (sample_result (3 / 2)) = result_with_score_above_one
   \<and> \<not> (confidence_score (sample_result (3 / 2)) \<le> 1)
   \<and> validate_ResearchResult (sample_result (3 / 2)) = Inl (ValidationError ''confidence_score'')"
  by (simp add: result_with_score_above_one_def ResearchResult_members_def
      ResearchResult_to_json_def sample_result_def validate_ResearchResult_def)

section \<open>NULL confidence and score\<close>

lemma insert_research_findings_null_confidence:
  assumes "t \<in> set (map rt_id (research_tasks_table db))"
    and "u \<notin> set (map rf_id (research_findings_table db))"
  shows "insert_research_findings u n
           \<lparr>in_rf_id = SqlDefault, in_rf_task_id = SqlValue t, in_rf_sub_query = SqlValue q,
            in_rf_response = SqlValue a, in_rf_citations = SqlDefault,
            in_rf_confidence = SqlNull, in_rf_created_at = SqlDefault\<rparr> db =
         Inr (db\<lparr>research_findings_table := research_findings_table db @
           [\<lparr>rf_id = u, rf_task_id = t, rf_sub_query = q, rf_response = a,
             rf_citations = Some (JArr []), rf_confidence = None,
             rf_created_at = Some n\<rparr>]\<rparr>)"
  using assms
  by (simp add: insert_research_findings_def chk_confidence_range_iff)

lemma insert_eval_results_null_score:
  assumes "t \<in> set (map rt_id (research_tasks_table db))"
    and "u \<notin> set (map er_id (eval_results_table db))"
  shows "insert_eval_results u n
           \<lparr>in_er_id = SqlDefault, in_er_task_id = SqlValue t, in_er_eval_type = SqlValue e,
            in_er_score = SqlNull, in_er_details = SqlDefault,
            in_er_created_at = SqlDefault\<rparr> db =
         Inr (db\<lparr>eval_results_table := eval_results_table db @
           [\<lparr>er_id = u, er_task_id = t, er_eval_type = e, er_score = None,
             er_details = None, er_created_at = Some n\<rparr>]\<rparr>)"
  using assms
  by (simp add: insert_eval_results_def chk_score_range_iff)

text \<open>
  C10: the range constraints on research\_findings.confidence and on eval\_results.score
  admit NULL. \<open>chk_confidence_range\<close> and \<open>chk_score_range\<close> both pass on NULL, and an
  INSERT that gives NULL for the confidence (for the score) of a row whose task is
  stored and whose id is new is accepted: the row is stored with no confidence (no
  score) at all.
\<close>

theorem range_constraints_admit_null:
  "chk_confidence_range None \<and> chk_score_range None
   \<and> (t \<in> set (map rt_id (research_tasks_table db)) \<longrightarrow>
       u \<notin> set (map rf_id (research_findings_table db)) \<longrightarrow>
       insert_research_findings u n
           \<lparr>in_rf_id = SqlDefault, in_rf_task_id = SqlValue t, in_rf_sub_query = SqlValue q,
            in_rf_response = SqlValue a, in_rf_citations = SqlDefault,
            in_rf_confidence = SqlNull, in_rf_created_at = SqlDefault\<rparr> db =
         Inr (db\<lparr>research_findings_table := research_findings_table db @
           [\<lparr>rf_id = u, rf_task_id = t, rf_sub_query = q, rf_response = a,
             rf_citations = Some (JArr []), rf_confidence = None,
             rf_created_at = Some n\<rparr>]\<rparr>))
   \<and> (t \<in> set (map rt_id (research_tasks_table db)) \<longrightarrow>
       u' \<notin> set (map er_id (eval_results_table db)) \<longrightarrow>
       insert_eval_results u' n
           \<lparr>in_er_id = SqlDefault, in_er_task_id = SqlValue t, in_er_eval_type = SqlValue e,
            in_er_score = SqlNull, in_er_details = SqlDefault,
            in_er_created_at = SqlDefault\<rparr> db =
         Inr (db\<lparr>eval_results_table := eval_results_table db @
           [\<lparr>er_id = u', er_task_id = t, er_eval_type = e, er_score = None,
             er_details = None, er_created_at = Some n\<rparr>]\<rparr>))"
proof (intro conjI impI)
  show "chk_confidence_range None" by (simp add: chk_confidence_range_iff)
  show "chk_score_range None" by (simp add: chk_score_range_iff)
next
  assume "t \<in> set (map rt_id (research_tasks_table db))"
    "u \<notin> set (map rf_id (research_findings_table db))"
  then show "insert_research_findings u n
           \<lparr>in_rf_id = SqlDefault, in_rf_task_id = SqlValue t, in_rf_sub_query = SqlValue q,
            in_rf_response = SqlValue a, in_rf_citations = SqlDefault,
            in_rf_confidence = SqlNull, in_rf_created_at = SqlDefault\<rparr> db =
         Inr (db\<lparr>research_findings_table := research_findings_table db @
           [\<lparr>rf_id = u, rf_task_id = t, rf_sub_query = q, rf_response = a,
             rf_citations = Some (JArr []), rf_confidence = None,
             rf_created_at = Some n\<rparr>]\<rparr>)"
    by (rule insert_research_findings_null_confidence)
next
  assume "t \<in> set (map rt_id (research_tasks_table db))"
    "u' \<notin> set (map er_id (eval_results_table db))"
  then show "insert_eval_results u' n
           \<lparr>in_er_id = SqlDefault, in_er_task_id = SqlValue t, in_er_eval_type = SqlValue e,
            in_er_score = SqlNull, in_er_details = SqlDefault,
            in_er_created_at = SqlDefault\<rparr> db =
         Inr (db\<lparr>eval_results_table := eval_results_table db @
           [\<lparr>er_id = u', er_task_id = t, er_eval_type = e, er_score = None,
             er_details = None, er_created_at = Some n\<rparr>]\<rparr>)"
    by (rule insert_eval_results_null_score)
qed

theorem range_constraints_admit_null_witness:
  "\<exists>db db1 db2. run (seed_script 0) empty_database = Inr db
     \<and> insert_research_findings ''f0000000-0000-0000-0000-000000000003'' 0
           \<lparr>in_rf_id = SqlDefault,
            in_rf_task_id = SqlValue ''00000000-0000-0000-0000-000000000001'',
            in_rf_sub_query = SqlValue ''What is mixture-of-experts architecture?'',
            in_rf_response = SqlValue ''An architecture of expert networks'',
            in_rf_citations = SqlDefault,
            in_rf_confidence = SqlNull, in_rf_created_at = SqlDefault\<rparr> db = Inr db1
     \<and> map rf_confidence (research_findings_table db1) = [Some (Finite 0.95), None]
     \<and> insert_eval_results ''e0000000-0000-0000-0000-000000000003'' 0
           \<lparr>in_er_id = SqlDefault,
            in_er_task_id = SqlValue ''00000000-0000-0000-0000-000000000001'',
            in_er_eval_type = SqlValue ''hallucination'',
            in_er_score = SqlNull, in_er_details = SqlDefault,
            in_er_created_at = SqlDefault\<rparr> db = Inr db2
     \<and> map er_score (eval_results_table db2) = [Some (Finite 0.85), None]"
proof -
  let ?t = "''00000000-0000-0000-0000-000000000001''"
  let ?u = "''f0000000-0000-0000-0000-000000000003''"
  let ?u' = "''e0000000-0000-0000-0000-000000000003''"
  from run_seed_script show ?thesis
  proof (elim exE conjE)
    fix db
    assume db: "run (seed_script 0) empty_database = Inr db"
      "map rt_id (research_tasks_table db) =
         [''00000000-0000-0000-0000-000000000001'', ''00000000-0000-0000-0000-000000000002'',
          ''00000000-0000-0000-0000-000000000004'']"
      "map rf_id (research_findings_table db) = [''f0000000-0000-0000-0000-000000000002'']"
      "map er_id (eval_results_table db) = [''e0000000-0000-0000-0000-000000000001'']"
      "map rf_confidence (research_findings_table db) = [Some (Finite 0.95)]"
      "map er_score (eval_results_table db) = [Some (Finite 0.85)]"
    note inst = range_constraints_admit_null[of ?t db ?u 0
        "''What is mixture-of-experts architecture?''" "''An architecture of expert networks''"
        ?u' "''hallucination''"]
    have t: "?t \<in> set (map rt_id (research_tasks_table db))"
      by (simp only: db(2)) simp
    have u: "?u \<notin> set (map rf_id (research_findings_table db))"
      by (simp only: db(3)) simp
    have u': "?u' \<notin> set (map er_id (eval_results_table db))"
      by (simp only: db(4)) simp
    note f = mp[OF mp[OF inst[THEN conjunct2, THEN conjunct2, THEN conjunct1] t] u]
    note e = mp[OF mp[OF inst[THEN conjunct2, THEN conjunct2, THEN conjunct2] t] u']
    show ?thesis
      apply (intro exI conjI)
          apply (rule db(1))
         apply (rule f)
        apply (simp add: db(5))
       apply (rule e)
      apply (simp add: db(6))
      done
  qed
qed

section \<open>The create-task request\<close>

lemma validate_CreateResearchRequest_iff:
  "(validate_CreateResearchRequest r = Inr r') =
     (r' = r \<and> 1 \<le> length (CreateResearchRequest.query r) \<and>
      length (CreateResearchRequest.query r) \<le> 2000 \<and>
      (case max_iterations r of None \<Rightarrow> True | Some n \<Rightarrow> 1 \<le> n \<and> n \<le> 20))"
  by (auto simp add: validate_CreateResearchRequest_def Suc_le_eq split: option.splits)

lemma validate_CreateResearchRequest_rejects:
  assumes "length (CreateResearchRequest.query r) < 1 \<or>
           length (CreateResearchRequest.query r) > 2000 \<or>
           (\<exists>n. max_iterations r = Some n \<and> (n < 1 \<or> n > 20))"
  shows "\<exists>e. validate_CreateResearchRequest r = Inl (ValidationError e)"
  using assms
  by (auto simp add: validate_CreateResearchRequest_def split: option.splits)

text \<open>
  C2: a CreateResearchRequest is valid exactly when its query has between 1 and 2000
  characters and its max\_iterations, when present, is between 1 and 20. A request
  that passes validation is returned as it is and is in these ranges; a request whose
  query length or max\_iterations is outside them is rejected with a validation error;
  and a request inside them passes.
\<close>

theorem create_research_request_ranges:
  "(validate_CreateResearchRequest r = Inr r' \<longrightarrow>
      r' = r \<and> 1 \<le> length (CreateResearchRequest.query r)
      \<and> length (CreateResearchRequest.query r) \<le> 2000
      \<and> (\<forall>n. max_iterations r = Some n \<longrightarrow> 1 \<le> n \<and> n \<le> 20))
   \<and> (length (CreateResearchRequest.query r) < 1 \<or>
       length (CreateResearchRequest.query r) > 2000 \<or>
       (\<exists>n. max_iterations r = Some n \<and> (n < 1 \<or> n > 20)) \<longrightarrow>
      (\<exists>e. validate_CreateResearchRequest r = Inl (ValidationError e)))
   \<and> (1 \<le> length (CreateResearchRequest.query r) \<and>
       length (CreateResearchRequest.query r) \<le> 2000 \<and>
       (\<forall>n. max_iterations r = Some n \<longrightarrow> 1 \<le> n \<and> n \<le> 20) \<longrightarrow>
      validate_CreateResearchRequest r = Inr r)"
proof (intro conjI impI allI)
  assume a: "validate_CreateResearchRequest r = Inr r'"
  then show "r' = r" "1 \<le> length (CreateResearchRequest.query r)"
    "length (CreateResearchRequest.query r) \<le> 2000"
    by (simp_all add: validate_CreateResearchRequest_iff)
  fix n assume "max_iterations r = Some n"
  with a show "1 \<le> n" "n \<le> 20"
    by (simp_all add: validate_CreateResearchRequest_iff)
next
  assume "length (CreateResearchRequest.query r) < 1 \<or>
       length (CreateResearchRequest.query r) > 2000 \<or>
       (\<exists>n. max_iterations r = Some n \<and> (n < 1 \<or> n > 20))"
  then show "\<exists>e. validate_CreateResearchRequest r = Inl (ValidationError e)"
    by (rule validate_CreateResearchRequest_rejects)
next
  assume "1 \<le> length (CreateResearchRequest.query r) \<and>
       length (CreateResearchRequest.query r) \<le> 2000 \<and>
       (\<forall>n. max_iterations r = Some n \<longrightarrow> 1 \<le> n \<and> n \<le> 20)"
  then show "validate_CreateResearchRequest r = Inr r"
    by (simp add: validate_CreateResearchRequest_iff split: option.splits)
qed

theorem create_research_request_ranges_witness:
  "validate_CreateResearchRequest
      (sample_request ''Compare React Server Components vs traditional SSR approaches'' (Some 5))
    = Inr (sample_request ''Compare React Server Components vs traditional SSR approaches'' (Some 5))
   \<and> (\<exists>e. validate_CreateResearchRequest (sample_request '''' None) = Inl (ValidationError e))
   \<and> (\<exists>e. validate_CreateResearchRequest (sample_request (replicate 2001 CHR ''a'') None)
        = Inl (ValidationError e))
   \<and> validate_CreateResearchRequest (sample_request (replicate 2000 CHR ''a'') None)
        = Inr (sample_request (replicate 2000 CHR ''a'') None)
   \<and> (\<exists>e. validate_CreateResearchRequest (sample_request ''q'' (Some 0)) = Inl (ValidationError e))
   \<and> (\<exists>e. validate_CreateResearchRequest (sample_request ''q'' (Some 21)) = Inl (ValidationError e))"
proof -
  let ?q = "''Compare React Server Components vs traditional SSR approaches''"
  have a: "validate_CreateResearchRequest (sample_request ?q (Some 5)) = Inr (sample_request ?q (Some 5))"
    using create_research_request_ranges[of "sample_request ?q (Some 5)", THEN conjunct2, THEN conjunct2]
    by (simp add: sample_request_def)
  have b: "\<exists>e. validate_CreateResearchRequest (sample_request '''' None) = Inl (ValidationError e)"
    using create_research_request_ranges[of "sample_request '''' None", THEN conjunct2, THEN conjunct1]
    by (simp add: sample_request_def)
  have c: "\<exists>e. validate_CreateResearchRequest (sample_request (replicate 2001 CHR ''a'') None)
        = Inl (ValidationError e)"
    using create_research_request_ranges[of "sample_request (replicate 2001 CHR ''a'') None",
        THEN conjunct2, THEN conjunct1]
    by (simp add: sample_request_def)
  have d: "validate_CreateResearchRequest (sample_request (replicate 2000 CHR ''a'') None)
        = Inr (sample_request (replicate 2000 CHR ''a'') None)"
    using create_research_request_ranges[of "sample_request (replicate 2000 CHR ''a'') None",
        THEN conjunct2, THEN conjunct2]
    by (simp add: sample_request_def)
  have e: "\<exists>e. validate_CreateResearchRequest (sample_request ''q'' (Some 0)) = Inl (ValidationError e)"
    using create_research_request_ranges[of "sample_request ''q'' (Some 0)", THEN conjunct2, THEN conjunct1]
    by (simp add: sample_request_def)
  have f: "\<exists>e. validate_CreateResearchRequest (sample_request ''q'' (Some 21)) = Inl (ValidationError e)"
    using create_research_request_ranges[of "sample_request ''q'' (Some 21)", THEN conjunct2, THEN conjunct1]
    by (simp add: sample_request_def)
  from a b c d e f show ?thesis by (intro conjI)
qed

section \<open>Deleting a task\<close>

lemma deleted_ids_of_task:
  assumes "task \<in> set (map rt_id rows)"
  shows "set (map rt_id (filter (\<lambda>r. rt_id r = task) rows)) = {task}"
  using assms by auto

lemma delete_research_task_tables:
  assumes "task \<in> set (map rt_id (research_tasks_table db))"
  shows "research_tasks_table (delete_research_task task db) =
           filter (\<lambda>r. rt_id r \<noteq> task) (research_tasks_table db)"
    and "research_findings_table (delete_research_task task db) =
           filter (\<lambda>r. rf_task_id r \<noteq> task) (research_findings_table db)"
    and "inferences_table (delete_research_task task db) =
           filter (\<lambda>r. inf_task_id r \<noteq> task) (inferences_table db)"
    and "eval_results_table (delete_research_task task db) =
           filter (\<lambda>r. er_task_id r \<noteq> task) (eval_results_table db)"
  using deleted_ids_of_task[OF assms]
  by (simp_all add: delete_research_task_def delete_from_research_tasks_def)

lemma filter_removes_exactly:
  "set xs - set (filter (\<lambda>r. f r \<noteq> k) xs) = {r \<in> set xs. f r = k}"
  by auto

lemma map_filter_key:
  "map f (filter (\<lambda>r. f r \<noteq> k) xs) = filter (\<lambda>x. x \<noteq> k) (map f xs)"
  by (induction xs) auto

lemma filter_key_all: "k \<notin> set (map f xs) \<Longrightarrow> filter (\<lambda>r. f r \<noteq> k) xs = xs"
  by (induction xs) auto

lemma filter_key_none: "set (map f xs) \<subseteq> {k} \<Longrightarrow> filter (\<lambda>r. f r \<noteq> k) xs = []"
  by (induction xs) auto

text \<open>
  C3: deleting a stored research\_tasks row deletes exactly the rows that reference its
  id. After the delete each of research\_findings, inferences and eval\_results is what
  it was without the rows whose task\_id is the id of the deleted task: no such row
  remains, the rows that went are exactly these, and the rows of other tasks stay as
  they were, in their order. The other tasks stay as well.
\<close>

theorem delete_task_cascades:
  assumes "task \<in> set (map rt_id (research_tasks_table db))"
  shows "research_tasks_table (delete_research_task task db) =
           filter (\<lambda>r. rt_id r \<noteq> task) (research_tasks_table db)
    \<and> research_findings_table (delete_research_task task db) =
           filter (\<lambda>r. rf_task_id r \<noteq> task) (research_findings_table db)
    \<and> inferences_table (delete_research_task task db) =
           filter (\<lambda>r. inf_task_id r \<noteq> task) (inferences_table db)
    \<and> eval_results_table (delete_research_task task db) =
           filter (\<lambda>r. er_task_id r \<noteq> task) (eval_results_table db)
    \<and> task \<notin> set (map rt_id (research_tasks_table (delete_research_task task db)))
    \<and> task \<notin> set (map rf_task_id (research_findings_table (delete_research_task task db)))
    \<and> task \<notin> set (map inf_task_id (inferences_table (delete_research_task task db)))
    \<and> task \<notin> set (map er_task_id (eval_results_table (delete_research_task task db)))
    \<and> set (research_findings_table db) -
         set (research_findings_table (delete_research_task task db)) =
         {r \<in> set (research_findings_table db). rf_task_id r = task}
    \<and> set (inferences_table db) - set (inferences_table (delete_research_task task db)) =
         {r \<in> set (inferences_table db). inf_task_id r = task}
    \<and> set (eval_results_table db) - set (eval_results_table (delete_research_task task db)) =
         {r \<in> set (eval_results_table db). er_task_id r = task}"
  unfolding delete_research_task_tables[OF assms] filter_removes_exactly
  by auto

text \<open>The seed rows of task 1 go with it; tasks 2 and 4 stay.\<close>

theorem delete_task_cascades_witness:
  "\<exists>db. run (seed_script 0) empty_database = Inr db
     \<and> map rf_task_id (research_findings_table db) = [''00000000-0000-0000-0000-000000000001'']
     \<and> map rt_id (research_tasks_table
           (delete_research_task ''00000000-0000-0000-0000-000000000001'' db)) =
         [''00000000-0000-0000-0000-000000000002'', ''00000000-0000-0000-0000-000000000004'']
     \<and> research_findings_table
           (delete_research_task ''00000000-0000-0000-0000-000000000001'' db) = []
     \<and> inferences_table (delete_research_task ''00000000-0000-0000-0000-000000000001'' db) = []
     \<and> eval_results_table (delete_research_task ''00000000-0000-0000-0000-000000000001'' db) = []
     \<and> research_findings_table
           (delete_research_task ''00000000-0000-0000-0000-000000000002'' db) =
         research_findings_table db"
proof -
  let ?t = "''00000000-0000-0000-0000-000000000001''"
  let ?t2 = "''00000000-0000-0000-0000-000000000002''"
  from run_seed_script show ?thesis
  proof (elim exE conjE)
    fix db
    assume db: "run (seed_script 0) empty_database = Inr db"
      "map rt_id (research_tasks_table db) =
         [''00000000-0000-0000-0000-000000000001'', ''00000000-0000-0000-0000-000000000002'',
          ''00000000-0000-0000-0000-000000000004'']"
      "map rf_task_id (research_findings_table db) = [''00000000-0000-0000-0000-000000000001'']"
      "map inf_task_id (inferences_table db) = [''00000000-0000-0000-0000-000000000001'']"
      "map er_task_id (eval_results_table db) = [''00000000-0000-0000-0000-000000000001'']"
    have t: "?t \<in> set (map rt_id (research_tasks_table db))"
      by (simp only: db(2)) simp
    have t2: "?t2 \<in> set (map rt_id (research_tasks_table db))"
      by (simp only: db(2)) simp
    note inst = delete_task_cascades[OF t]
    note inst2 = delete_task_cascades[OF t2]
    have a: "map rt_id (research_tasks_table (delete_research_task ?t db)) =
         [''00000000-0000-0000-0000-000000000002'', ''00000000-0000-0000-0000-000000000004'']"
      by (simp only: inst[THEN conjunct1] map_filter_key db(2)) simp
    have b: "research_findings_table (delete_research_task ?t db) = []"
      by (simp only: inst[THEN conjunct2, THEN conjunct1]) (rule filter_key_none, simp add: db(3))
    have c: "inferences_table (delete_research_task ?t db) = []"
      by (simp only: inst[THEN conjunct2, THEN conjunct2, THEN conjunct1])
        (rule filter_key_none, simp add: db(4))
    have d: "eval_results_table (delete_research_task ?t db) = []"
      by (simp only: inst[THEN conjunct2, THEN conjunct2, THEN conjunct2, THEN conjunct1])
        (rule filter_key_none, simp add: db(5))
    have e: "research_findings_table (delete_research_task ?t2 db) = research_findings_table db"
      by (simp only: inst2[THEN conjunct2, THEN conjunct1]) (rule filter_key_all, simp add: db(3))
    from db(1) db(3) a b c d e show ?thesis
      by (intro exI[of _ db] conjI)
  qed
qed

section \<open>The variants of a stream event\<close>

lemma has_type_TObject_keys:
  assumes "has_type (TObject ms) v"
  shows "set (map fst ms) \<subseteq> set (keys v)"
proof (cases v)
  case (JObj kvs)
  have "k \<in> set (map fst kvs)" if "k \<in> set (map fst ms)" for k
  proof -
    from that obtain m where m: "m \<in> set ms" "fst m = k" by auto
    with assms JObj obtain x where "map_of kvs k = Some x"
      by (auto simp add: list_all_iff split: option.splits)
    then have "(k, x) \<in> set kvs" by (rule map_of_SomeD)
    then show ?thesis by force
  qed
  with JObj show ?thesis by auto
qed (use assms in simp_all)

lemma map_fst_extends:
  "map fst (extends base body) =
     map fst base @ filter (\<lambda>k. k \<notin> set (map fst base)) (map fst body)"
  by (simp add: extends_def filter_map comp_def)

lemma filter_new_extends:
  "filter (\<lambda>k. k \<notin> set b) (b @ filter (\<lambda>k. k \<notin> set b) xs) = filter (\<lambda>k. k \<notin> set b) xs"
  by (induction xs) simp_all

lemma member_names_base_payload:
  "map fst (declared_members t) = map fst BaseEvent_members @ payload_members t"
  by (cases t)
    (simp_all only: payload_members_def declared_members.simps TaskCreatedEvent_members_def
      TaskStartedEvent_members_def StepCompletedEvent_members_def
      TaskCompletedEvent_members_def TaskFailedEvent_members_def map_fst_extends
      filter_new_extends)

lemma BaseEvent_member_names:
  "map fst BaseEvent_members = [''event_type'', ''task_id'', ''timestamp'']"
  by (simp add: BaseEvent_members_def)

lemma payload_members_eq:
  "payload_members EventType.task_created = [''query'']"
  "payload_members EventType.task_started = []"
  "payload_members EventType.step_completed = [''step'']"
  "payload_members EventType.task_completed = [''result'']"
  "payload_members EventType.task_failed = [''error'', ''error_details'']"
  by (simp_all add: payload_members_def TaskCreatedEvent_members_def
      TaskStartedEvent_members_def StepCompletedEvent_members_def
      TaskCompletedEvent_members_def TaskFailedEvent_members_def map_fst_extends
      BaseEvent_member_names)

lemma distinct_member_names: "distinct (map fst (declared_members t))"
  unfolding member_names_base_payload
  by (cases t) (simp_all add: payload_members_eq BaseEvent_member_names)

lemma payload_members_empty_iff:
  "(payload_members t = []) = (t = EventType.task_started)"
  by (cases t) (simp_all add: payload_members_eq)

lemma psubset_disjoint_union:
  "A \<inter> B = {} \<Longrightarrow> (A \<subset> A \<union> B) = (B \<noteq> {})"
  by blast

lemma strict_superset_iff:
  "(set (map fst BaseEvent_members) \<subset> set (map fst (declared_members t))) =
   (t \<noteq> EventType.task_started)"
proof -
  have "distinct (map fst BaseEvent_members @ payload_members t)"
    using distinct_member_names[of t] by (simp only: member_names_base_payload)
  then have disj: "set (map fst BaseEvent_members) \<inter> set (payload_members t) = {}"
    by simp
  show ?thesis
    by (simp only: member_names_base_payload set_append psubset_disjoint_union[OF disj]
        set_empty payload_members_empty_iff)
qed

lemma ex_EventType:
  "(\<exists>t. P t) = (P EventType.task_created \<or> P EventType.task_started \<or>
     P EventType.step_completed \<or> P EventType.task_completed \<or> P EventType.task_failed)"
  by (metis EventType.exhaust)

lemma StreamEvent_type_iff:
  "has_type StreamEvent_type v = (\<exists>t. has_type (TObject (declared_members t)) v)"
  by (simp only: ex_EventType StreamEvent_type_def has_type.simps declared_members.simps)


lemmas event_member_defs = TaskCreatedEvent_members_def TaskStartedEvent_members_def
  StepCompletedEvent_members_def TaskCompletedEvent_members_def TaskFailedEvent_members_def
  BaseEvent_members_def extends_def EventType_type_def

lemma variant_has_base:
  assumes "has_type (TObject (declared_members t)) v"
  shows "has_type (TObject BaseEvent_members) v"
  using assms
  by (cases t; cases v) (simp_all add: event_member_defs split: option.splits json.splits)

lemma variant_tag:
  assumes "has_type (TObject (declared_members t)) v"
  shows "member ''event_type'' v = Some (JString (EventType_literal t))"
  using assms
  by (cases t; cases v) (simp_all add: event_member_defs split: option.splits json.splits)

lemma inj_EventType_literal: "EventType_literal t = EventType_literal t' \<Longrightarrow> t = t'"
  by (cases t; cases t') simp_all

lemma tag_keys_variant:
  assumes "has_type (TObject (declared_members t)) v" "has_type (TObject (declared_members t')) v"
  shows "t = t'"
proof -
  have "Some (JString (EventType_literal t)) = Some (JString (EventType_literal t'))"
    using variant_tag[OF assms(1)] variant_tag[OF assms(2)] by simp
  then show ?thesis by (simp add: inj_EventType_literal)
qed


lemma tag_gives_variant:
  assumes "has_type StreamEvent_type v"
    and "member ''event_type'' v = Some (JString (EventType_literal t))"
  shows "has_type (TObject (declared_members t)) v"
proof -
  from assms(1) obtain t' where t': "has_type (TObject (declared_members t')) v"
    by (simp only: StreamEvent_type_iff) (erule exE)
  from variant_tag[OF t'] assms(2) have "EventType_literal t' = EventType_literal t"
    by simp
  then have "t' = t" by (rule inj_EventType_literal)
  with t' show ?thesis by simp
qed

lemma stream_event_has_base:
  assumes "has_type StreamEvent_type v"
  shows "has_type (TObject BaseEvent_members) v"
proof -
  from assms obtain t where "has_type (TObject (declared_members t)) v"
    by (simp only: StreamEvent_type_iff) (erule exE)
  then show ?thesis by (rule variant_has_base)
qed

lemma started_event_with_query_typed:
  "has_type StreamEvent_type started_event_with_query"
  "member ''event_type'' started_event_with_query = Some (JString ''task_started'')"
  "''query'' \<in> set (keys started_event_with_query)"
  by (simp_all add: StreamEvent_type_def started_event_with_query_def event_member_defs)

text \<open>
  C4, as amended: StreamEvent is a tagged union of exactly five variants, one for each
  value of event\_type: a value is a StreamEvent exactly when it has the type of one of
  the five interfaces, and its event\_type tells which. Every StreamEvent value carries
  the members of the base (event\_type, task\_id and timestamp) and every member that
  the interface of its tag declares. The members an interface declares are a superset
  of the base's, strict for every tag but task\_started, whose interface adds no
  member. The interfaces are open: a value may carry members beyond those of its tag,
  a payload member of another variant among them.
\<close>

theorem stream_event_variants:
  "(UNIV :: EventType set) = {EventType.task_created, EventType.task_started,
     EventType.step_completed, EventType.task_completed, EventType.task_failed}
   \<and> has_type StreamEvent_type v = (\<exists>t. has_type (TObject (declared_members t)) v)
   \<and> (has_type (TObject (declared_members t)) v \<longrightarrow>
        member ''event_type'' v = Some (JString (EventType_literal t)))
   \<and> (has_type StreamEvent_type v \<longrightarrow>
        member ''event_type'' v = Some (JString (EventType_literal t)) \<longrightarrow>
        has_type (TObject (declared_members t)) v)
   \<and> map fst BaseEvent_members = [''event_type'', ''task_id'', ''timestamp'']
   \<and> (has_type StreamEvent_type v \<longrightarrow>
        has_type (TObject BaseEvent_members) v \<and>
        set (map fst BaseEvent_members) \<subseteq> set (keys v))
   \<and> set (map fst BaseEvent_members) \<subseteq> set (map fst (declared_members t))
   \<and> (set (map fst BaseEvent_members) \<subset> set (map fst (declared_members t))) =
       (t \<noteq> EventType.task_started)
   \<and> map fst (declared_members EventType.task_started) = map fst BaseEvent_members
   \<and> (has_type (TObject (declared_members t)) v \<longrightarrow>
        set (map fst (declared_members t)) \<subseteq> set (keys v))
   \<and> (\<exists>w. has_type StreamEvent_type w
        \<and> member ''event_type'' w = Some (JString ''task_started'')
        \<and> ''query'' \<in> set (keys w))"
proof (intro conjI impI)
  show "(UNIV :: EventType set) = {EventType.task_created, EventType.task_started,
     EventType.step_completed, EventType.task_completed, EventType.task_failed}"
    by (rule EventType_UNIV)
  show "has_type StreamEvent_type v = (\<exists>t. has_type (TObject (declared_members t)) v)"
    by (rule StreamEvent_type_iff)
  show "map fst BaseEvent_members = [''event_type'', ''task_id'', ''timestamp'']"
    by (rule BaseEvent_member_names)
  show "set (map fst BaseEvent_members) \<subseteq> set (map fst (declared_members t))"
    by (simp only: member_names_base_payload set_append) (rule Un_upper1)
  show "(set (map fst BaseEvent_members) \<subset> set (map fst (declared_members t))) =
       (t \<noteq> EventType.task_started)"
    by (rule strict_superset_iff)
  show "map fst (declared_members EventType.task_started) = map fst BaseEvent_members"
    by (simp only: member_names_base_payload payload_members_eq append_Nil2)
  show "\<exists>w. has_type StreamEvent_type w
        \<and> member ''event_type'' w = Some (JString ''task_started'')
        \<and> ''query'' \<in> set (keys w)"
    by (intro exI[of _ started_event_with_query] conjI) (rule started_event_with_query_typed)+
next
  assume "has_type (TObject (declared_members t)) v"
  then show "member ''event_type'' v = Some (JString (EventType_literal t))"
    by (rule variant_tag)
next
  assume "has_type StreamEvent_type v"
    "member ''event_type'' v = Some (JString (EventType_literal t))"
  then show "has_type (TObject (declared_members t)) v" by (rule tag_gives_variant)
next
  assume a: "has_type StreamEvent_type v"
  then show "has_type (TObject BaseEvent_members) v" by (rule stream_event_has_base)
  then show "set (map fst BaseEvent_members) \<subseteq> set (keys v)"
    by (rule has_type_TObject_keys)
next
  assume "has_type (TObject (declared_members t)) v"
  then show "set (map fst (declared_members t)) \<subseteq> set (keys v)"
    by (rule has_type_TObject_keys)
qed

theorem stream_event_variants_counterexample:
  "\<not> (set (map fst BaseEvent_members) \<subset> set (map fst TaskStartedEvent_members))
   \<and> has_type StreamEvent_type started_event_with_query
   \<and> member ''event_type'' started_event_with_query = Some (JString ''task_started'')
   \<and> ''query'' \<in> set (keys started_event_with_query)
   \<and> ''query'' \<notin> set (map fst (declared_members EventType.task_started))
   \<and> ''query'' \<in> set (payload_members EventType.task_created)"
  by (simp add: StreamEvent_type_def started_event_with_query_def event_member_defs
      payload_members_def)

theorem stream_event_variants_witness:
  "has_type StreamEvent_type failed_event
   \<and> member ''event_type'' failed_event = Some (JString ''task_failed'')
   \<and> has_type (TObject (declared_members EventType.task_failed)) failed_event
   \<and> has_type (TObject BaseEvent_members) failed_event
   \<and> set (map fst BaseEvent_members) \<subseteq> set (keys failed_event)
   \<and> set (map fst (declared_members EventType.task_failed)) \<subseteq> set (keys failed_event)
   \<and> set (map fst BaseEvent_members) \<subset> set (map fst (declared_members EventType.task_failed))"
proof -
  note inst = stream_event_variants[of failed_event EventType.task_failed]
  have typed: "has_type StreamEvent_type failed_event"
    by (simp add: StreamEvent_type_def failed_event_def event_member_defs)
  have tag: "member ''event_type'' failed_event =
      Some (JString (EventType_literal EventType.task_failed))"
    by (simp add: failed_event_def)
  note c3 = inst[THEN conjunct2, THEN conjunct2, THEN conjunct2]
  have variant: "has_type (TObject (declared_members EventType.task_failed)) failed_event"
    by (rule mp[OF mp[OF c3[THEN conjunct1] typed] tag])
  note c5 = c3[THEN conjunct2, THEN conjunct2]
  have base: "has_type (TObject BaseEvent_members) failed_event \<and>
      set (map fst BaseEvent_members) \<subseteq> set (keys failed_event)"
    by (rule mp[OF c5[THEN conjunct1] typed])
  note c7 = c5[THEN conjunct2, THEN conjunct2]
  have strict: "set (map fst BaseEvent_members) \<subset>
      set (map fst (declared_members EventType.task_failed))"
    using c7[THEN conjunct1] by simp
  note c9 = c7[THEN conjunct2, THEN conjunct2]
  have present: "set (map fst (declared_members EventType.task_failed)) \<subseteq> set (keys failed_event)"
    by (rule mp[OF c9[THEN conjunct1] variant])
  have tag': "member ''event_type'' failed_event = Some (JString ''task_failed'')"
    using mp[OF inst[THEN conjunct2, THEN conjunct2, THEN conjunct1] variant] by simp
  from typed tag' variant base present strict show ?thesis
    by (elim conjE) (intro conjI)
qed

section \<open>The status of a task over time\<close>

lemma insert_research_tasks_default_status:
  assumes "u \<notin> set (map rt_id (research_tasks_table db))"
  shows "insert_research_tasks u n
           \<lparr>in_rt_id = SqlDefault, in_rt_query = SqlValue q, in_rt_config = SqlDefault,
            in_rt_status = SqlDefault, in_rt_result = SqlDefault,
            in_rt_reasoning_trace = SqlDefault, in_rt_error = SqlDefault,
            in_rt_created_at = SqlDefault, in_rt_started_at = SqlDefault,
            in_rt_completed_at = SqlDefault, in_rt_metadata = SqlDefault\<rparr> db =
         Inr (db\<lparr>research_tasks_table := research_tasks_table db @
           [\<lparr>rt_id = u, rt_query = q, rt_config = Some (JObj []), rt_status = ''pending'',
             rt_result = None, rt_reasoning_trace = None, rt_error = None,
             rt_created_at = Some n, rt_started_at = None, rt_completed_at = None,
             rt_metadata = Some (JObj [])\<rparr>]\<rparr>)"
  using assms by (simp add: insert_research_tasks_def chk_task_status_iff)

lemma insert_research_tasks_given_status:
  assumes "u \<notin> set (map rt_id (research_tasks_table db))"
    and "chk_task_status (Some s)"
  shows "insert_research_tasks u n
           \<lparr>in_rt_id = SqlDefault, in_rt_query = SqlValue q, in_rt_config = SqlDefault,
            in_rt_status = SqlValue s, in_rt_result = SqlDefault,
            in_rt_reasoning_trace = SqlDefault, in_rt_error = SqlDefault,
            in_rt_created_at = SqlDefault, in_rt_started_at = SqlDefault,
            in_rt_completed_at = SqlDefault, in_rt_metadata = SqlDefault\<rparr> db =
         Inr (db\<lparr>research_tasks_table := research_tasks_table db @
           [\<lparr>rt_id = u, rt_query = q, rt_config = Some (JObj []), rt_status = s,
             rt_result = None, rt_reasoning_trace = None, rt_error = None,
             rt_created_at = Some n, rt_started_at = None, rt_completed_at = None,
             rt_metadata = Some (JObj [])\<rparr>]\<rparr>)"
  using assms by (simp add: insert_research_tasks_def)

lemma update_research_tasks_status_accepted:
  assumes "task \<in> set (map rt_id (research_tasks_table db))"
    and "chk_task_status (Some s)"
  shows "update_research_tasks_status task (Some s) db =
         Inr (db\<lparr>research_tasks_table :=
           map (\<lambda>r. if rt_id r = task then r\<lparr>rt_status := s\<rparr> else r)
             (research_tasks_table db)\<rparr>)"
  using assms by (simp add: update_research_tasks_status_def)

lemma statuses_after_update:
  "map (\<lambda>r. (rt_id r, rt_status r))
     (map (\<lambda>r. if rt_id r = task then r\<lparr>rt_status := s\<rparr> else r) rows) =
   map (\<lambda>(i, st). (i, if i = task then s else st)) (map (\<lambda>r. (rt_id r, rt_status r)) rows)"
  by (induction rows) simp_all

lemma task_statuses_update:
  "task_statuses (Inr (db\<lparr>research_tasks_table :=
      map (\<lambda>r. if rt_id r = task then r\<lparr>rt_status := s\<rparr> else r)
        (research_tasks_table db)\<rparr>)) =
   Inr (map (\<lambda>(i, st). (i, if i = task then s else st))
     (map (\<lambda>r. (rt_id r, rt_status r)) (research_tasks_table db)))"
  by (simp add: task_statuses_def statuses_after_update del: map_map)

text \<open>
  C7, as amended: a task row inserted without a status is stored as pending, the
  default of the column. The schema constrains the value of the status, not its
  history: an INSERT that gives one of the four statuses is stored with it, and an
  UPDATE of a stored task to any of the four statuses is accepted whatever the status
  was, so that pending to running, running to completed and running to failed are
  accepted transitions, and the schema forbids no other.
\<close>

theorem task_status_default_and_updates:
  "(u \<notin> set (map rt_id (research_tasks_table db)) \<longrightarrow>
      insert_research_tasks u n
           \<lparr>in_rt_id = SqlDefault, in_rt_query = SqlValue q, in_rt_config = SqlDefault,
            in_rt_status = SqlDefault, in_rt_result = SqlDefault,
            in_rt_reasoning_trace = SqlDefault, in_rt_error = SqlDefault,
            in_rt_created_at = SqlDefault, in_rt_started_at = SqlDefault,
            in_rt_completed_at = SqlDefault, in_rt_metadata = SqlDefault\<rparr> db =
         Inr (db\<lparr>research_tasks_table := research_tasks_table db @
           [\<lparr>rt_id = u, rt_query = q, rt_config = Some (JObj []), rt_status = ''pending'',
             rt_result = None, rt_reasoning_trace = None, rt_error = None,
             rt_created_at = Some n, rt_started_at = None, rt_completed_at = None,
             rt_metadata = Some (JObj [])\<rparr>]\<rparr>))
   \<and> (u \<notin> set (map rt_id (research_tasks_table db)) \<longrightarrow>
       s \<in> {''pending'', ''running'', ''completed'', ''failed''} \<longrightarrow>
      insert_research_tasks u n
           \<lparr>in_rt_id = SqlDefault, in_rt_query = SqlValue q, in_rt_config = SqlDefault,
            in_rt_status = SqlValue s, in_rt_result = SqlDefault,
            in_rt_reasoning_trace = SqlDefault, in_rt_error = SqlDefault,
            in_rt_created_at = SqlDefault, in_rt_started_at = SqlDefault,
            in_rt_completed_at = SqlDefault, in_rt_metadata = SqlDefault\<rparr> db =
         Inr (db\<lparr>research_tasks_table := research_tasks_table db @
           [\<lparr>rt_id = u, rt_query = q, rt_config = Some (JObj []), rt_status = s,
             rt_result = None, rt_reasoning_trace = None, rt_error = None,
             rt_created_at = Some n, rt_started_at = None, rt_completed_at = None,
             rt_metadata = Some (JObj [])\<rparr>]\<rparr>))
   \<and> (task \<in> set (map rt_id (research_tasks_table db)) \<longrightarrow>
       s \<in> {''pending'', ''running'', ''completed'', ''failed''} \<longrightarrow>
      update_research_tasks_status task (Some s) db =
         Inr (db\<lparr>research_tasks_table :=
           map (\<lambda>r. if rt_id r = task then r\<lparr>rt_status := s\<rparr> else r)
             (research_tasks_table db)\<rparr>))"
proof (intro conjI impI)
  assume "u \<notin> set (map rt_id (research_tasks_table db))"
  then show "insert_research_tasks u n
           \<lparr>in_rt_id = SqlDefault, in_rt_query = SqlValue q, in_rt_config = SqlDefault,
            in_rt_status = SqlDefault, in_rt_result = SqlDefault,
            in_rt_reasoning_trace = SqlDefault, in_rt_error = SqlDefault,
            in_rt_created_at = SqlDefault, in_rt_started_at = SqlDefault,
            in_rt_completed_at = SqlDefault, in_rt_metadata = SqlDefault\<rparr> db =
         Inr (db\<lparr>research_tasks_table := research_tasks_table db @
           [\<lparr>rt_id = u, rt_query = q, rt_config = Some (JObj []), rt_status = ''pending'',
             rt_result = None, rt_reasoning_trace = None, rt_error = None,
             rt_created_at = Some n, rt_started_at = None, rt_completed_at = None,
             rt_metadata = Some (JObj [])\<rparr>]\<rparr>)"
    by (rule insert_research_tasks_default_status)
next
  assume "u \<notin> set (map rt_id (research_tasks_table db))"
    and "s \<in> {''pending'', ''running'', ''completed'', ''failed''}"
  then show "insert_research_tasks u n
           \<lparr>in_rt_id = SqlDefault, in_rt_query = SqlValue q, in_rt_config = SqlDefault,
            in_rt_status = SqlValue s, in_rt_result = SqlDefault,
            in_rt_reasoning_trace = SqlDefault, in_rt_error = SqlDefault,
            in_rt_created_at = SqlDefault, in_rt_started_at = SqlDefault,
            in_rt_completed_at = SqlDefault, in_rt_metadata = SqlDefault\<rparr> db =
         Inr (db\<lparr>research_tasks_table := research_tasks_table db @
           [\<lparr>rt_id = u, rt_query = q, rt_config = Some (JObj []), rt_status = s,
             rt_result = None, rt_reasoning_trace = None, rt_error = None,
             rt_created_at = Some n, rt_started_at = None, rt_completed_at = None,
             rt_metadata = Some (JObj [])\<rparr>]\<rparr>)"
    by (simp only: chk_task_status_iff[symmetric]) (rule insert_research_tasks_given_status)
next
  assume "task \<in> set (map rt_id (research_tasks_table db))"
    and "s \<in> {''pending'', ''running'', ''completed'', ''failed''}"
  then show "update_research_tasks_status task (Some s) db =
         Inr (db\<lparr>research_tasks_table :=
           map (\<lambda>r. if rt_id r = task then r\<lparr>rt_status := s\<rparr> else r)
             (research_tasks_table db)\<rparr>)"
    by (simp only: chk_task_status_iff[symmetric]) (rule update_research_tasks_status_accepted)
qed

theorem task_status_default_and_updates_witness:
  "task_statuses (insert_research_tasks ''00000000-0000-0000-0000-000000000005'' 0
           \<lparr>in_rt_id = SqlDefault,
            in_rt_query = SqlValue ''Compare React Server Components vs traditional SSR approaches'',
            in_rt_config = SqlDefault,
            in_rt_status = SqlDefault, in_rt_result = SqlDefault,
            in_rt_reasoning_trace = SqlDefault, in_rt_error = SqlDefault,
            in_rt_created_at = SqlDefault, in_rt_started_at = SqlDefault,
            in_rt_completed_at = SqlDefault, in_rt_metadata = SqlDefault\<rparr> empty_database) =
     Inr [(''00000000-0000-0000-0000-000000000005'', ''pending'')]
   \<and> task_statuses (insert_research_tasks ''00000000-0000-0000-0000-000000000005'' 0
           \<lparr>in_rt_id = SqlDefault,
            in_rt_query = SqlValue ''Compare React Server Components vs traditional SSR approaches'',
            in_rt_config = SqlDefault,
            in_rt_status = SqlValue ''running'', in_rt_result = SqlDefault,
            in_rt_reasoning_trace = SqlDefault, in_rt_error = SqlDefault,
            in_rt_created_at = SqlDefault, in_rt_started_at = SqlDefault,
            in_rt_completed_at = SqlDefault, in_rt_metadata = SqlDefault\<rparr> empty_database) =
     Inr [(''00000000-0000-0000-0000-000000000005'', ''running'')]
   \<and> (\<exists>db. run (seed_script 0) empty_database = Inr db
        \<and> task_statuses (Inr db) =
            Inr [(''00000000-0000-0000-0000-000000000001'', ''completed''),
                 (''00000000-0000-0000-0000-000000000002'', ''pending''),
                 (''00000000-0000-0000-0000-000000000004'', ''failed'')]
        \<and> task_statuses (update_research_tasks_status
              ''00000000-0000-0000-0000-000000000002'' (Some ''running'') db) =
            Inr [(''00000000-0000-0000-0000-000000000001'', ''completed''),
                 (''00000000-0000-0000-0000-000000000002'', ''running''),
                 (''00000000-0000-0000-0000-000000000004'', ''failed'')]
        \<and> task_statuses (update_research_tasks_status
              ''00000000-0000-0000-0000-000000000001'' (Some ''pending'') db) =
            Inr [(''00000000-0000-0000-0000-000000000001'', ''pending''),
                 (''00000000-0000-0000-0000-000000000002'', ''pending''),
                 (''00000000-0000-0000-0000-000000000004'', ''failed'')])"
proof -
  let ?u = "''00000000-0000-0000-0000-000000000005''"
  let ?q = "''Compare React Server Components vs traditional SSR approaches''"
  have fresh: "?u \<notin> set (map rt_id (research_tasks_table empty_database))"
    by (simp add: empty_database_def)
  have running: "''running'' \<in> {''pending'', ''running'', ''completed'', ''failed''}"
    by simp
  have pending: "''pending'' \<in> {''pending'', ''running'', ''completed'', ''failed''}"
    by simp
  note i1 = task_status_default_and_updates[of ?u empty_database 0 ?q "''running''" ?u]
  have a: "task_statuses (insert_research_tasks ?u 0
           \<lparr>in_rt_id = SqlDefault, in_rt_query = SqlValue ?q, in_rt_config = SqlDefault,
            in_rt_status = SqlDefault, in_rt_result = SqlDefault,
            in_rt_reasoning_trace = SqlDefault, in_rt_error = SqlDefault,
            in_rt_created_at = SqlDefault, in_rt_started_at = SqlDefault,
            in_rt_completed_at = SqlDefault, in_rt_metadata = SqlDefault\<rparr> empty_database) =
     Inr [(?u, ''pending'')]"
    by (simp only: mp[OF i1[THEN conjunct1] fresh])
      (simp add: task_statuses_def empty_database_def)
  have b: "task_statuses (insert_research_tasks ?u 0
           \<lparr>in_rt_id = SqlDefault, in_rt_query = SqlValue ?q, in_rt_config = SqlDefault,
            in_rt_status = SqlValue ''running'', in_rt_result = SqlDefault,
            in_rt_reasoning_trace = SqlDefault, in_rt_error = SqlDefault,
            in_rt_created_at = SqlDefault, in_rt_started_at = SqlDefault,
            in_rt_completed_at = SqlDefault, in_rt_metadata = SqlDefault\<rparr> empty_database) =
     Inr [(?u, ''running'')]"
    by (simp only: mp[OF mp[OF i1[THEN conjunct2, THEN conjunct1] fresh] running])
      (simp add: task_statuses_def empty_database_def)
  from run_seed_script have c: "\<exists>db. run (seed_script 0) empty_database = Inr db
        \<and> task_statuses (Inr db) =
            Inr [(''00000000-0000-0000-0000-000000000001'', ''completed''),
                 (''00000000-0000-0000-0000-000000000002'', ''pending''),
                 (''00000000-0000-0000-0000-000000000004'', ''failed'')]
        \<and> task_statuses (update_research_tasks_status
              ''00000000-0000-0000-0000-000000000002'' (Some ''running'') db) =
            Inr [(''00000000-0000-0000-0000-000000000001'', ''completed''),
                 (''00000000-0000-0000-0000-000000000002'', ''running''),
                 (''00000000-0000-0000-0000-000000000004'', ''failed'')]
        \<and> task_statuses (update_research_tasks_status
              ''00000000-0000-0000-0000-000000000001'' (Some ''pending'') db) =
            Inr [(''00000000-0000-0000-0000-000000000001'', ''pending''),
                 (''00000000-0000-0000-0000-000000000002'', ''pending''),
                 (''00000000-0000-0000-0000-000000000004'', ''failed'')]"
  proof (elim exE conjE)
    fix db
    assume db: "run (seed_script 0) empty_database = Inr db"
      "map rt_id (research_tasks_table db) =
         [''00000000-0000-0000-0000-000000000001'', ''00000000-0000-0000-0000-000000000002'',
          ''00000000-0000-0000-0000-000000000004'']"
      "map (\<lambda>r. (rt_id r, rt_status r)) (research_tasks_table db) =
         [(''00000000-0000-0000-0000-000000000001'', ''completed''),
          (''00000000-0000-0000-0000-000000000002'', ''pending''),
          (''00000000-0000-0000-0000-000000000004'', ''failed'')]"
    have t1: "''00000000-0000-0000-0000-000000000001'' \<in> set (map rt_id (research_tasks_table db))"
      by (simp only: db(2)) simp
    have t2: "''00000000-0000-0000-0000-000000000002'' \<in> set (map rt_id (research_tasks_table db))"
      by (simp only: db(2)) simp
    note u2 = mp[OF mp[OF task_status_default_and_updates[of ?u db 0 ?q "''running''"
        "''00000000-0000-0000-0000-000000000002''", THEN conjunct2, THEN conjunct2] t2] running]
    note u1 = mp[OF mp[OF task_status_default_and_updates[of ?u db 0 ?q "''pending''"
        "''00000000-0000-0000-0000-000000000001''", THEN conjunct2, THEN conjunct2] t1] pending]
    have s0: "task_statuses (Inr db) =
            Inr [(''00000000-0000-0000-0000-000000000001'', ''completed''),
                 (''00000000-0000-0000-0000-000000000002'', ''pending''),
                 (''00000000-0000-0000-0000-000000000004'', ''failed'')]"
      by (simp add: task_statuses_def db(3))
    have s2: "task_statuses (update_research_tasks_status
              ''00000000-0000-0000-0000-000000000002'' (Some ''running'') db) =
            Inr [(''00000000-0000-0000-0000-000000000001'', ''completed''),
                 (''00000000-0000-0000-0000-000000000002'', ''running''),
                 (''00000000-0000-0000-0000-000000000004'', ''failed'')]"
      by (simp only: u2 task_statuses_update db(3)) simp
    have s1: "task_statuses (update_research_tasks_status
              ''00000000-0000-0000-0000-000000000001'' (Some ''pending'') db) =
            Inr [(''00000000-0000-0000-0000-000000000001'', ''pending''),
                 (''00000000-0000-0000-0000-000000000002'', ''pending''),
                 (''00000000-0000-0000-0000-000000000004'', ''failed'')]"
      by (simp only: u1 task_statuses_update db(3)) simp
    from db(1) s0 s2 s1 show ?thesis by (intro exI[of _ db] conjI)
  qed
  from a b c show ?thesis by (intro conjI)
qed

text \<open>
  The seed script stores its failed task as failed from the start, and the schema
  accepts the update that takes this task back to pending.
\<close>

theorem task_lifecycle_counterexample:
  "task_statuses (run [InsertResearchTasks ''a0000000-0000-0000-0000-000000000000'' 0
       (seed_task_4 0)] empty_database) =
     Inr [(''00000000-0000-0000-0000-000000000004'', ''failed'')]
   \<and> task_statuses (run [InsertResearchTasks ''a0000000-0000-0000-0000-000000000000'' 0
       (seed_task_4 0),
       UpdateResearchTasksStatus ''00000000-0000-0000-0000-000000000004'' (Some ''pending'')]
       empty_database) =
     Inr [(''00000000-0000-0000-0000-000000000004'', ''pending'')]"
  by (simp add: task_statuses_def seed_task_4_def insert_research_tasks_def
      update_research_tasks_status_def chk_defs empty_database_def)

section \<open>The wire shape and back\<close>












end
